theory Spec2Isabelle
  imports Complex_Main
begin

section \<open>Common values: errors and bigint arithmetic\<close>

text \<open>
  The bundler is TypeScript. A \<open>bigint\<close> is an unbounded integer and is modelled as
  \<open>int\<close>. Every \<open>throw\<close> (and every rejected promise of an external call) is a value
  \<open>Inl e\<close> of the sum type \<open>error + 'a\<close>; a normal return is \<open>Inr v\<close>.
\<close>

datatype ValidationErrors = SimulateValidation | InvalidSignature | ExpiresShortly

datatype error =
    RpcError string "ValidationErrors option"
      \<comment> \<open>\<open>new RpcError(message, code)\<close>; the code is absent in the gas price manager\<close>
  | Error string
      \<comment> \<open>\<open>new Error(message)\<close>, also a rejected promise of the JSON-RPC client\<close>
  | RangeError
      \<comment> \<open>bigint division by zero\<close>
  | TypeError
      \<comment> \<open>\<open>undefined\<close> mixed with a bigint\<close>
  | IntegerOutOfRangeError
      \<comment> \<open>viem \<open>toHex\<close> of a negative number\<close>
  | SizeExceedsPaddingSizeError
      \<comment> \<open>viem \<open>pad\<close> of a value longer than the requested size\<close>
  | SliceOffsetOutOfBoundsError
      \<comment> \<open>viem \<open>slice\<close> starting after the end of the value\<close>

text \<open>
  Division of bigints truncates towards zero, whereas \<open>div\<close> on \<open>int\<close> rounds towards
  minus infinity. \<open>tdiv\<close> is the quotient for a divisor known to be non-zero (a literal
  in the source); \<open>bigint_div\<close> is the operator for a computed divisor, where zero raises
  a \<open>RangeError\<close>.
\<close>

definition tdiv :: "int \<Rightarrow> int \<Rightarrow> int" where
  "tdiv a b = sgn a * sgn b * (\<bar>a\<bar> div \<bar>b\<bar>)"

definition bigint_div :: "int \<Rightarrow> int \<Rightarrow> error + int" where
  "bigint_div a b = (if b = 0 then Inl RangeError else Inr (tdiv a b))"

text \<open>
  Modelled from the spec: \<open>maxBigInt\<close> and \<open>minBigInt\<close> are imported from
  \<open>@alto/utils\<close>, whose source is not part of the files at hand; the spec uses them as
  the maximum and the minimum of two bigints.
\<close>

definition maxBigInt :: "int \<Rightarrow> int \<Rightarrow> int" where
  "maxBigInt a b = (if a > b then a else b)"

definition minBigInt :: "int \<Rightarrow> int \<Rightarrow> int" where
  "minBigInt a b = (if a < b then a else b)"

section \<open>Gas price manager\<close>

subsection \<open>Chain identifiers\<close>

text \<open>
  The enum \<open>ChainId\<close> of the gas price manager, and the chain ids that the source reads
  from the table \<open>viem/chains\<close> of the viem library.
\<close>

definition ChainId_Polygon :: int where "ChainId_Polygon = 137"
definition ChainId_Mumbai :: int where "ChainId_Mumbai = 80001"

definition chains_sepolia_id :: int where "chains_sepolia_id = 11155111"
definition chains_celo_id :: int where "chains_celo_id = 42220"
definition chains_arbitrum_id :: int where "chains_arbitrum_id = 42161"
definition chains_scroll_id :: int where "chains_scroll_id = 534352"
definition chains_scrollSepolia_id :: int where "chains_scrollSepolia_id = 534351"
definition chains_arbitrumGoerli_id :: int where "chains_arbitrumGoerli_id = 421613"
definition chains_mainnet_id :: int where "chains_mainnet_id = 1"
definition chains_mantle_id :: int where "chains_mantle_id = 5000"
definition chains_base_id :: int where "chains_base_id = 8453"
definition chains_dfk_id :: int where "chains_dfk_id = 53935"
definition chains_celoAlfajores_id :: int where "chains_celoAlfajores_id = 44787"
definition chains_celoCannoli_id :: int where "chains_celoCannoli_id = 17323"
definition chains_avalanche_id :: int where "chains_avalanche_id = 43114"
definition chains_polygon_id :: int where "chains_polygon_id = 137"
definition chains_polygonMumbai_id :: int where "chains_polygonMumbai_id = 80001"

text \<open>\<open>parseGwei("31")\<close> and \<open>parseGwei("1")\<close>: one gwei is \<open>10^9\<close> wei.\<close>

definition MIN_POLYGON_GAS_PRICE :: int where "MIN_POLYGON_GAS_PRICE = 31000000000"
definition MIN_MUMBAI_GAS_PRICE :: int where "MIN_MUMBAI_GAS_PRICE = 1000000000"

subsection \<open>Data\<close>

record GasPriceParameters =
  maxFeePerGas :: int
  maxPriorityFeePerGas :: int

text \<open>
  The entries of the two queues are objects \<open>{ timestamp, maxFeePerGas }\<close> and
  \<open>{ timestamp, maxPriorityFeePerGas }\<close>. Their fields carry a prefix here, because the
  field names of different records share one name space.
\<close>

record MaxFeeEntry =
  mf_timestamp :: int
  mf_maxFeePerGas :: int

record MaxPriorityFeeEntry =
  mp_timestamp :: int
  mp_maxPriorityFeePerGas :: int

text \<open>
  The fields of the class \<open>GasPriceManager\<close> that its methods read or write. The
  logger has no effect on any result and is left out; the JSON-RPC client is the record
  \<open>PublicClient\<close> below, passed to each call, since its answers change between calls.
\<close>

record GasPriceManager =
  chain_id :: int
  noEip1559Support :: bool
  queueMaxFeePerGas :: "MaxFeeEntry list"
  queueMaxPriorityFeePerGas :: "MaxPriorityFeeEntry list"
  maxQueueSize :: int

text \<open>The constructor: both queues start empty.\<close>

definition new_GasPriceManager :: "int \<Rightarrow> bool \<Rightarrow> int \<Rightarrow> GasPriceManager" where
  "new_GasPriceManager chainId noEip gasPriceTimeValidityInSeconds =
     \<lparr> chain_id = chainId, noEip1559Support = noEip,
       queueMaxFeePerGas = [], queueMaxPriorityFeePerGas = [],
       maxQueueSize = gasPriceTimeValidityInSeconds \<rparr>"

record Block =
  baseFeePerGas :: "int option"
  gasUsed :: int
  gasLimit :: int

text \<open>
  What the outside world answers during one call of \<open>getGasPrice\<close>: the JSON-RPC
  methods of the client (each may reject), the Polygon gas station (\<open>None\<close> when the
  fetch or the parse fails, which the source turns into \<open>null\<close>), and the clock.
\<close>

record PublicClient =
  getBlock :: "error + Block"
  getGasPrice_rpc :: "error + int"
  getFeeHistory_reward :: "error + (int list list) option"
  estimateFeesPerGas :: "error + (int option \<times> int option)"
    \<comment> \<open>\<open>(fees.maxFeePerGas, fees.maxPriorityFeePerGas)\<close>, each possibly undefined\<close>
  estimateFeesPerGas_legacy :: "error + int option"
    \<comment> \<open>\<open>gasInfo.gasPrice\<close>, possibly undefined\<close>

record World =
  publicClient :: PublicClient
  gasStation_fast :: "GasPriceParameters option"
  Date_now :: int

subsection \<open>Bumping\<close>

definition getDefaultGasFee :: "int \<Rightarrow> int" where
  "getDefaultGasFee chainId =
     (if chainId = ChainId_Polygon then MIN_POLYGON_GAS_PRICE
      else if chainId = ChainId_Mumbai then MIN_MUMBAI_GAS_PRICE
      else 0)"

definition getBumpAmount :: "int \<Rightarrow> int" where
  "getBumpAmount chainId =
     (if chainId = chains_sepolia_id then 120
      else if chainId = chains_celo_id then 150
      else if chainId = chains_arbitrum_id \<or>
              chainId = chains_scroll_id \<or>
              chainId = chains_scrollSepolia_id \<or>
              chainId = chains_arbitrumGoerli_id \<or>
              chainId = chains_mainnet_id \<or>
              chainId = chains_mantle_id \<or>
              chainId = 22222 \<or>
              chainId = chains_sepolia_id \<or>
              chainId = chains_base_id \<or>
              chainId = chains_dfk_id \<or>
              chainId = chains_celoAlfajores_id \<or>
              chainId = chains_celoCannoli_id \<or>
              chainId = chains_avalanche_id
      then 111
      else 100)"

definition bumpTheGasPrice :: "GasPriceManager \<Rightarrow> GasPriceParameters \<Rightarrow> GasPriceParameters" where
  "bumpTheGasPrice this gasPriceParameters =
     (let bumpAmount = getBumpAmount (chain_id this);
          maxPriorityFeePerGas' =
            maxBigInt (maxPriorityFeePerGas gasPriceParameters) (getDefaultGasFee (chain_id this));
          maxFeePerGas' = maxBigInt (maxFeePerGas gasPriceParameters) maxPriorityFeePerGas';
          result = \<lparr> maxFeePerGas = tdiv (maxFeePerGas' * bumpAmount) 100,
                     maxPriorityFeePerGas = tdiv (maxPriorityFeePerGas' * bumpAmount) 100 \<rparr>
      in if chain_id this = chains_celo_id \<or>
            chain_id this = chains_celoAlfajores_id \<or>
            chain_id this = chains_celoCannoli_id
         then (let maxFee = maxBigInt (maxFeePerGas result) (maxPriorityFeePerGas result)
               in \<lparr> maxFeePerGas = maxFee, maxPriorityFeePerGas = maxFee \<rparr>)
         else result)"

subsection \<open>Fallback estimates\<close>

text \<open>
  \<open>feeHistory.reward.reduce((acc, cur) => cur[0] + acc, 0n)\<close>: an empty inner array
  gives \<open>undefined + bigint\<close>, a \<open>TypeError\<close>.
\<close>

fun sum_rewards :: "int list list \<Rightarrow> int \<Rightarrow> error + int" where
  "sum_rewards [] acc = Inr acc"
| "sum_rewards (cur # rest) acc =
     (case cur of
        [] \<Rightarrow> Inl TypeError
      | c0 # _ \<Rightarrow> sum_rewards rest (c0 + acc))"

definition getFallBackMaxPriorityFeePerGas :: "PublicClient \<Rightarrow> int \<Rightarrow> error + int" where
  "getFallBackMaxPriorityFeePerGas pc gasPrice =
     (case getFeeHistory_reward pc of
        Inl e \<Rightarrow> Inl e
      | Inr None \<Rightarrow> Inr gasPrice
      | Inr (Some reward) \<Rightarrow>
          (case sum_rewards reward 0 of
             Inl e \<Rightarrow> Inl e
           | Inr feeSum \<Rightarrow> Inr (minBigInt (tdiv feeSum 10) gasPrice)))"

text \<open>
  \<open>block.baseFeePerGas || (await publicClient.getGasPrice())\<close>: a missing base fee and
  the base fee \<open>0n\<close> are both falsy, and only then is the gas price fetched.
\<close>

definition currentBaseFeePerGas_of :: "PublicClient \<Rightarrow> Block \<Rightarrow> error + int" where
  "currentBaseFeePerGas_of pc block =
     (case baseFeePerGas block of
        None \<Rightarrow> getGasPrice_rpc pc
      | Some b \<Rightarrow> if b = 0 then getGasPrice_rpc pc else Inr b)"

definition getNextBaseFee :: "PublicClient \<Rightarrow> error + int" where
  "getNextBaseFee pc =
     (case getBlock pc of
        Inl e \<Rightarrow> Inl e
      | Inr block \<Rightarrow>
          (case currentBaseFeePerGas_of pc block of
             Inl e \<Rightarrow> Inl e
           | Inr currentBaseFeePerGas \<Rightarrow>
               (let currentGasUsed = gasUsed block;
                    gasTarget = tdiv (gasLimit block) 2
                in if currentGasUsed = gasTarget then Inr currentBaseFeePerGas
                   else if currentGasUsed > gasTarget then
                     (let gasUsedDelta = currentGasUsed - gasTarget
                      in case bigint_div (currentBaseFeePerGas * gasUsedDelta) gasTarget of
                           Inl e \<Rightarrow> Inl e
                         | Inr q \<Rightarrow> Inr (currentBaseFeePerGas + maxBigInt (tdiv q 8) 1))
                   else
                     (let gasUsedDelta = currentGasUsed - gasTarget
                      in case bigint_div (currentBaseFeePerGas * gasUsedDelta) gasTarget of
                           Inl e \<Rightarrow> Inl e
                         | Inr q \<Rightarrow> Inr (currentBaseFeePerGas - tdiv q 8)))))"

definition getNoEip1559SupportGasPrice :: "PublicClient \<Rightarrow> error + GasPriceParameters" where
  "getNoEip1559SupportGasPrice pc =
     (let gasPrice = (case estimateFeesPerGas_legacy pc of Inl e \<Rightarrow> None | Inr g \<Rightarrow> g)
      in case (case gasPrice of
                 None \<Rightarrow> getGasPrice_rpc pc
               | Some g \<Rightarrow> Inr g) of
           Inl e \<Rightarrow> Inl e
         | Inr g \<Rightarrow> Inr \<lparr> maxFeePerGas = g, maxPriorityFeePerGas = g \<rparr>)"

definition estimateGasPrice :: "PublicClient \<Rightarrow> error + GasPriceParameters" where
  "estimateGasPrice pc =
     (let fees = (case estimateFeesPerGas pc of Inl e \<Rightarrow> (None, None) | Inr f \<Rightarrow> f);
          maxFeePerGas0 = fst fees;
          maxPriorityFeePerGas0 = snd fees
      in case (case maxPriorityFeePerGas0 of
                 None \<Rightarrow>
                   getFallBackMaxPriorityFeePerGas pc
                     (case maxFeePerGas0 of None \<Rightarrow> 0 | Some f \<Rightarrow> f)
               | Some p \<Rightarrow> Inr p) of
           Inl e \<Rightarrow> Inl e
         | Inr maxPriorityFeePerGas1 \<Rightarrow>
             (case (case maxFeePerGas0 of
                      None \<Rightarrow>
                        (case getNextBaseFee pc of
                           Inl e \<Rightarrow> Inl e
                         | Inr nextBase \<Rightarrow> Inr (nextBase + maxPriorityFeePerGas1))
                    | Some f \<Rightarrow> Inr f) of
                Inl e \<Rightarrow> Inl e
              | Inr maxFeePerGas1 \<Rightarrow>
                  Inr \<lparr> maxFeePerGas = maxFeePerGas1,
                        maxPriorityFeePerGas =
                          (if maxPriorityFeePerGas1 = 0 then tdiv maxFeePerGas1 200
                           else maxPriorityFeePerGas1) \<rparr>))"

subsection \<open>The two queues\<close>

text \<open>\<open>Array.prototype.shift\<close> removes the first element; on an empty array it does nothing.\<close>

definition shift :: "'a list \<Rightarrow> 'a list" where
  "shift queue = (case queue of [] \<Rightarrow> [] | _ # rest \<Rightarrow> rest)"

definition saveMaxFeePerGas :: "int \<Rightarrow> int \<Rightarrow> GasPriceManager \<Rightarrow> GasPriceManager" where
  "saveMaxFeePerGas gasPrice timestamp this =
     (let queue = queueMaxFeePerGas this;
          lst = (if length queue > 0 then Some (queue ! (length queue - 1)) else None);
          pushed =
            (let queue' = (if int (length queue) \<ge> maxQueueSize this then shift queue else queue)
             in this\<lparr> queueMaxFeePerGas :=
                        queue' @ [\<lparr> mf_timestamp = timestamp, mf_maxFeePerGas = gasPrice \<rparr>] \<rparr>)
      in case lst of
           None \<Rightarrow> pushed
         | Some l \<Rightarrow>
             if timestamp - mf_timestamp l \<ge> 1000 then pushed
             else if gasPrice < mf_maxFeePerGas l then
               this\<lparr> queueMaxFeePerGas :=
                      queue[length queue - 1 :=
                              l\<lparr> mf_maxFeePerGas := gasPrice, mf_timestamp := timestamp \<rparr>] \<rparr>
             else this)"

definition saveMaxPriorityFeePerGas :: "int \<Rightarrow> int \<Rightarrow> GasPriceManager \<Rightarrow> GasPriceManager" where
  "saveMaxPriorityFeePerGas gasPrice timestamp this =
     (let queue = queueMaxPriorityFeePerGas this;
          lst = (if length queue > 0 then Some (queue ! (length queue - 1)) else None);
          pushed =
            (let queue' = (if int (length queue) \<ge> maxQueueSize this then shift queue else queue)
             in this\<lparr> queueMaxPriorityFeePerGas :=
                        queue' @ [\<lparr> mp_timestamp = timestamp,
                                    mp_maxPriorityFeePerGas = gasPrice \<rparr>] \<rparr>)
      in case lst of
           None \<Rightarrow> pushed
         | Some l \<Rightarrow>
             if timestamp - mp_timestamp l \<ge> 1000 then pushed
             else if gasPrice < mp_maxPriorityFeePerGas l then
               this\<lparr> queueMaxPriorityFeePerGas :=
                      queue[length queue - 1 :=
                              l\<lparr> mp_maxPriorityFeePerGas := gasPrice,
                                 mp_timestamp := timestamp \<rparr>] \<rparr>
             else this)"

definition saveGasPrice :: "GasPriceParameters \<Rightarrow> int \<Rightarrow> GasPriceManager \<Rightarrow> GasPriceManager" where
  "saveGasPrice gasPrice timestamp this =
     saveMaxPriorityFeePerGas (maxPriorityFeePerGas gasPrice) timestamp
       (saveMaxFeePerGas (maxFeePerGas gasPrice) timestamp this)"

subsection \<open>getGasPrice\<close>

text \<open>
  Each of the three paths bumps its estimate, records the bumped price raised to the
  floor in the queues, and returns the bumped price itself.
\<close>

definition bump_save_return ::
  "GasPriceManager \<Rightarrow> int \<Rightarrow> int \<Rightarrow> int \<Rightarrow> GasPriceParameters
     \<Rightarrow> (error + GasPriceParameters) \<times> GasPriceManager" where
  "bump_save_return this maxFeeFloor maxPriorityFeeFloor now estimate =
     (let gasPrice = bumpTheGasPrice this estimate
      in (Inr gasPrice,
          saveGasPrice
            \<lparr> maxFeePerGas = maxBigInt (maxFeePerGas gasPrice) maxFeeFloor,
              maxPriorityFeePerGas = maxBigInt (maxPriorityFeePerGas gasPrice) maxPriorityFeeFloor \<rparr>
            now this))"

definition getGasPrice ::
  "World \<Rightarrow> GasPriceManager \<Rightarrow> (error + GasPriceParameters) \<times> GasPriceManager" where
  "getGasPrice w this =
     (let maxFeeFloor = (if chain_id this = chains_dfk_id then 5000000000 else 0);
          maxPriorityFeeFloor = (if chain_id this = chains_dfk_id then 5000000000 else 0);
          polygonEstimate =
            (if chain_id this = chains_polygon_id \<or> chain_id this = chains_polygonMumbai_id
             then gasStation_fast w else None)
      in case polygonEstimate of
           Some est \<Rightarrow>
             bump_save_return this maxFeeFloor maxPriorityFeeFloor (Date_now w)
               \<lparr> maxFeePerGas = maxFeePerGas est,
                 maxPriorityFeePerGas = maxPriorityFeePerGas est \<rparr>
         | None \<Rightarrow>
             if noEip1559Support this then
               (case getNoEip1559SupportGasPrice (publicClient w) of
                  Inl e \<Rightarrow> (Inl e, this)
                | Inr est \<Rightarrow>
                    bump_save_return this maxFeeFloor maxPriorityFeeFloor (Date_now w) est)
             else
               (case estimateGasPrice (publicClient w) of
                  Inl e \<Rightarrow> (Inl e, this)
                | Inr est \<Rightarrow>
                    bump_save_return this maxFeeFloor maxPriorityFeeFloor (Date_now w)
                      \<lparr> maxFeePerGas = maxFeePerGas est,
                        maxPriorityFeePerGas = maxPriorityFeePerGas est \<rparr>))"

section \<open>Validator\<close>

subsection \<open>Strings: template literals, hexadecimal text, parseInt\<close>

text \<open>
  Hexadecimal values (viem's type \<open>Hex\<close>) are JavaScript strings such as \<open>"0x1f"\<close>
  and are modelled as \<open>string\<close>. \<open>digit_char d\<close> is the character of the digit
  \<open>d < 16\<close>, as \<open>toString\<close> prints it (lower case).
\<close>

definition digit_char :: "nat \<Rightarrow> char" where
  "digit_char d = ''0123456789abcdef'' ! d"

text \<open>\<open>n.toString(10)\<close> and \<open>n.toString(16)\<close> of a value that is not negative.\<close>

fun toString10 :: "nat \<Rightarrow> string" where
  "toString10 n = (if n < 10 then [digit_char n] else toString10 (n div 10) @ [digit_char (n mod 10)])"

fun toString16 :: "nat \<Rightarrow> string" where
  "toString16 n = (if n < 16 then [digit_char n] else toString16 (n div 16) @ [digit_char (n mod 16)])"

declare toString10.simps [simp del] toString16.simps [simp del]

text \<open>A bigint or an integral number inside a template literal: \<open>`${v}`\<close>.\<close>

definition show_int :: "int \<Rightarrow> string" where
  "show_int v = (if v < 0 then ''-'' @ toString10 (nat (- v)) else toString10 (nat v))"

text \<open>The value of a hexadecimal digit, in either case; \<open>None\<close> for any other character.\<close>

definition hex_value :: "char \<Rightarrow> nat option" where
  "hex_value c =
     (let k = (of_char c :: nat)
      in if 48 \<le> k \<and> k \<le> 57 then Some (k - 48)
         else if 97 \<le> k \<and> k \<le> 102 then Some (k - 87)
         else if 65 \<le> k \<and> k \<le> 70 then Some (k - 55)
         else None)"

definition hex_digits_value :: "string \<Rightarrow> nat" where
  "hex_digits_value ds =
     foldl (\<lambda>acc c. case hex_value c of None \<Rightarrow> acc | Some d \<Rightarrow> 16 * acc + d) 0 ds"

text \<open>
  \<open>Number.parseInt(s, 16)\<close> for a string without leading white space or sign, which
  is all the validator passes to it: an optional prefix \<open>0x\<close>, then the longest run of
  hexadecimal digits. No digit at all gives \<open>NaN\<close>, here \<open>None\<close>. The result is a
  double; twelve digits stay below \<open>2^48\<close>, where doubles are exact, so the value is an
  \<open>int\<close>.
\<close>

definition parseInt16 :: "string \<Rightarrow> int option" where
  "parseInt16 s =
     (let body = (if take 2 s = ''0x'' \<or> take 2 s = ''0X'' then drop 2 s else s);
          ds = takeWhile (\<lambda>c. hex_value c \<noteq> None) body
      in if ds = [] then None else Some (int (hex_digits_value ds)))"

subsection \<open>The functions of viem that the validator calls\<close>

text \<open>
  \<open>toHex\<close>, \<open>pad\<close>, \<open>slice\<close> and \<open>zeroAddress\<close> belong to the viem library. They
  are written here after the library's implementation: \<open>toHex\<close> of a bigint prints
  \<open>0x\<close> and the shortest hexadecimal text and refuses a negative value; \<open>pad\<close> removes
  the prefix, refuses more than \<open>2 * size\<close> digits and fills with zeros on the left;
  \<open>slice\<close> refuses a start beyond the last byte and cuts the digits of the bytes
  \<open>[start, end)\<close>.
\<close>

definition zeroAddress :: string where
  "zeroAddress = ''0x0000000000000000000000000000000000000000''"

definition toHex :: "int \<Rightarrow> error + string" where
  "toHex v = (if v < 0 then Inl IntegerOutOfRangeError else Inr (''0x'' @ toString16 (nat v)))"

text \<open>
  \<open>hex.replace("0x", "")\<close>: on the hexadecimal strings of this file the only
  occurrence of \<open>0x\<close> is the prefix.
\<close>

definition strip0x :: "string \<Rightarrow> string" where
  "strip0x h = (if take 2 h = ''0x'' then drop 2 h else h)"

definition pad :: "string \<Rightarrow> nat \<Rightarrow> error + string" where
  "pad hexIn sz =
     (let h = strip0x hexIn
      in if length h > sz * 2 then Inl SizeExceedsPaddingSizeError
         else Inr (''0x'' @ replicate (sz * 2 - length h) (CHR ''0'') @ h))"

text \<open>\<open>size(value)\<close> is \<open>Math.ceil((value.length - 2) / 2)\<close>.\<close>

definition size_hex :: "string \<Rightarrow> int" where
  "size_hex v = (int (length v) - 2 + 1) div 2"

definition slice :: "string \<Rightarrow> nat \<Rightarrow> nat option \<Rightarrow> error + string" where
  "slice valueIn start endOpt =
     (if start > 0 \<and> int start > size_hex valueIn - 1 then Inl SliceOffsetOutOfBoundsError
      else (let e = (case endOpt of None \<Rightarrow> length valueIn | Some e \<Rightarrow> e)
            in Inr (''0x'' @ take (e * 2 - start * 2) (drop (start * 2) (strip0x valueIn)))))"

subsection \<open>Validation data\<close>

record ValidationData =
  aggregator :: string
  validAfter :: int
  validUntil :: int

text \<open>
  \<open>parseValidationData\<close>. Where \<open>parseInt\<close> would give \<open>NaN\<close> the source has no
  branch: the \<open>NaN\<close> would flow into the result. The model stops there with an error of
  its own, and \<open>parseValidationData_never_NaN\<close> below shows that this never happens.
\<close>

definition NaN_error :: error where
  "NaN_error = Error ''NaN''"

definition parseValidationData :: "int \<Rightarrow> error + ValidationData" where
  "parseValidationData validationData =
     (let maxUint48 = 2 ^ 48 - 1
      in case toHex validationData of
           Inl e \<Rightarrow> Inl e
         | Inr h \<Rightarrow>
        (case pad h 32 of
           Inl e \<Rightarrow> Inl e
         | Inr data \<Rightarrow>
        (case slice data (32 - 20) None of
           Inl e \<Rightarrow> Inl e
         | Inr aggregator' \<Rightarrow>
        (case slice data (32 - 26) (Some (32 - 20)) of
           Inl e \<Rightarrow> Inl e
         | Inr validUntilHex \<Rightarrow>
        (case parseInt16 validUntilHex of
           None \<Rightarrow> Inl NaN_error
         | Some validUntil0 \<Rightarrow>
        (let validUntil' = (if validUntil0 = 0 then maxUint48 else validUntil0)
         in case slice data 0 (Some 6) of
              Inl e \<Rightarrow> Inl e
            | Inr validAfterHex \<Rightarrow>
           (case parseInt16 validAfterHex of
              None \<Rightarrow> Inl NaN_error
            | Some validAfter' \<Rightarrow>
                Inr \<lparr> aggregator = aggregator',
                      validAfter = validAfter',
                      validUntil = validUntil' \<rparr>)))))))"

text \<open>\<open>Math.max\<close> and \<open>Math.min\<close> of two numbers, neither of them \<open>NaN\<close>.\<close>

definition Math_max :: "int \<Rightarrow> int \<Rightarrow> int" where
  "Math_max a b = (if a < b then b else a)"

definition Math_min :: "int \<Rightarrow> int \<Rightarrow> int" where
  "Math_min a b = (if b < a then b else a)"

record MergedValidationData =
  paymasterSigFailed_m :: bool
  accountSigFailed_m :: bool
  validAfter_m :: int
  validUntil_m :: int

definition mergeValidationData :: "ValidationData \<Rightarrow> ValidationData \<Rightarrow> MergedValidationData" where
  "mergeValidationData accountValidationData paymasterValidationData =
     \<lparr> paymasterSigFailed_m = (aggregator paymasterValidationData \<noteq> zeroAddress),
       accountSigFailed_m = (aggregator accountValidationData \<noteq> zeroAddress),
       validAfter_m =
         Math_max (validAfter accountValidationData) (validAfter paymasterValidationData),
       validUntil_m =
         Math_min (validUntil accountValidationData) (validUntil paymasterValidationData) \<rparr>"

definition mergeValidationDataValues :: "int \<Rightarrow> int \<Rightarrow> error + MergedValidationData" where
  "mergeValidationDataValues accountValidationData paymasterValidationData =
     (case parseValidationData accountValidationData of
        Inl e \<Rightarrow> Inl e
      | Inr a \<Rightarrow>
          (case parseValidationData paymasterValidationData of
             Inl e \<Rightarrow> Inl e
           | Inr p \<Rightarrow> Inr (mergeValidationData a p)))"

subsection \<open>User operations and validation results\<close>

text \<open>
  Modelled from the spec: the types \<open>UserOperationV06\<close> and \<open>UserOperationV07\<close> are
  declared in \<open>@alto/types\<close>, which is not among the files at hand. The spec lists
  their fields: a v0.6 operation carries \<open>initCode\<close> and \<open>paymasterAndData\<close>; a v0.7
  operation carries the optional \<open>factory\<close>, \<open>factoryData\<close>, \<open>paymaster\<close>,
  \<open>paymasterVerificationGasLimit\<close>, \<open>paymasterPostOpGasLimit\<close> and
  \<open>paymasterData\<close> instead. An optional field that is absent is \<open>null\<close>, here
  \<open>None\<close>. The two fee fields carry the prefix \<open>uo\<close> to keep them apart from the
  fields of \<open>GasPriceParameters\<close>.
\<close>

record UserOperationCommon =
  sender :: string
  nonce :: int
  callData :: string
  callGasLimit :: int
  verificationGasLimit :: int
  preVerificationGas :: int
  uo_maxFeePerGas :: int
  uo_maxPriorityFeePerGas :: int
  signature :: string

record UserOperationV06 = UserOperationCommon +
  initCode :: string
  paymasterAndData :: string

record UserOperationV07 = UserOperationCommon +
  factory :: "string option"
  factoryData :: "string option"
  paymaster :: "string option"
  paymasterVerificationGasLimit :: "int option"
  paymasterPostOpGasLimit :: "int option"
  paymasterData :: "string option"

datatype UserOperation = V06 UserOperationV06 | V07 UserOperationV07

text \<open>
  Modelled from the spec: \<open>isVersion06\<close> and \<open>isVersion07\<close> are imported from
  \<open>@alto/utils\<close>, whose source is not part of the files at hand. The spec has a
  user operation be v0.6 or v0.7 by its shape, the two being exclusive.
\<close>

definition isVersion06 :: "UserOperation \<Rightarrow> bool" where
  "isVersion06 userOperation = (case userOperation of V06 _ \<Rightarrow> True | V07 _ \<Rightarrow> False)"

definition isVersion07 :: "UserOperation \<Rightarrow> bool" where
  "isVersion07 userOperation = (case userOperation of V06 _ \<Rightarrow> False | V07 _ \<Rightarrow> True)"

text \<open>\<open>userOperation.preVerificationGas\<close> on the union of the two shapes.\<close>

definition preVerificationGas_of :: "UserOperation \<Rightarrow> int" where
  "preVerificationGas_of userOperation =
     (case userOperation of V06 u \<Rightarrow> preVerificationGas u | V07 u \<Rightarrow> preVerificationGas u)"

text \<open>
  The results of the simulation, after the ABI of the EntryPoint: \<open>uint256\<close> decodes to
  a bigint, \<open>uint48\<close> to a number. The fields of the v0.6 and the v0.7 records carry
  the suffixes \<open>06\<close> and \<open>07\<close>. Every result also carries the constant
  \<open>storageMap: {}\<close>, which is left out.
\<close>

record StakeInfo =
  stake :: int
  unstakeDelaySec :: int

record StakeInfoAddr = StakeInfo +
  addr :: string

record ReturnInfoV06 =
  preOpGas06 :: int
  prefund06 :: int
  sigFailed06 :: bool
  validAfter06 :: int
  validUntil06 :: int
  paymasterContext06 :: string

record ValidationResultV06 =
  returnInfo06 :: ReturnInfoV06
  senderInfo06 :: StakeInfo
  factoryInfo06 :: StakeInfo
  paymasterInfo06 :: StakeInfo
  aggregatorInfo06 :: "(string \<times> StakeInfo) option"

text \<open>What the EntryPointSimulations contract of v0.7 returns.\<close>

record SimulatedReturnInfoV07 =
  preOpGas07 :: int
  prefund07 :: int
  accountValidationData :: int
  paymasterValidationData :: int
  paymasterContext07 :: string

record SimulatedValidationResultV07 =
  sim_returnInfo :: SimulatedReturnInfoV07
  sim_senderInfo :: StakeInfo
  sim_factoryInfo :: "StakeInfo option"
  sim_paymasterInfo :: "StakeInfo option"
  sim_aggregatorInfo :: "(string \<times> StakeInfo) option"

text \<open>
  \<open>simulateValidationResult\<close>: either \<open>{ status: "failed", data }\<close> with the
  revert reason, or the decoded result.
\<close>

datatype SimulateValidationResult =
    failed string
  | validated SimulatedValidationResultV07

text \<open>
  The record \<open>res\<close> that \<open>getValidationResultV07\<close> builds. Its \<open>validUntil\<close> is
  tested against \<open>null\<close> in the source, so the field is an option here.
\<close>

record ReturnInfoV07 = SimulatedReturnInfoV07 +
  accountSigFailed :: bool
  paymasterSigFailed :: bool
  validUntil07 :: "int option"
  validAfter07 :: int

record ValidationResultV07 =
  returnInfo07 :: ReturnInfoV07
  senderInfo07 :: StakeInfoAddr
  factoryInfo07 :: "StakeInfoAddr option"
  paymasterInfo07 :: "StakeInfoAddr option"
  aggregatorInfo07 :: "(string \<times> StakeInfo) option"

datatype ValidationResult = Result06 ValidationResultV06 | Result07 ValidationResultV07

definition prefund_of :: "ValidationResult \<Rightarrow> int" where
  "prefund_of validationResult =
     (case validationResult of
        Result06 r \<Rightarrow> prefund06 (returnInfo06 r)
      | Result07 r \<Rightarrow> prefund07 (returnInfo07 r))"

definition preOpGas_of :: "ValidationResult \<Rightarrow> int" where
  "preOpGas_of validationResult =
     (case validationResult of
        Result06 r \<Rightarrow> preOpGas06 (returnInfo06 r)
      | Result07 r \<Rightarrow> preOpGas07 (returnInfo07 r))"

subsection \<open>The validator\<close>

text \<open>
  The fields of the class \<open>UnsafeValidator\<close> that validation reads or writes; the two
  counters are the metrics \<open>userOperationsValidationSuccess\<close> and
  \<open>userOperationsValidationFailure\<close>.
\<close>

record UnsafeValidator =
  disableExpirationCheck :: bool
  apiVersion :: string
  chainId :: int
  entryPointSimulationsAddress :: "string option"
  userOperationsValidationSuccess :: nat
  userOperationsValidationFailure :: nat

text \<open>
  What the outside world answers during one validation: for v0.6 the outcome of the call
  of \<open>simulateValidation\<close> as \<open>getSimulationResult\<close> decodes it (an error, or the
  arguments of \<open>ValidationResult\<close>); for v0.7 the outcome of \<open>simulateValidation\<close>
  of the module \<open>EntryPointSimulationsV07\<close>; and the clock, \<open>Date.now()\<close>, in
  milliseconds.
\<close>

record Outside =
  simulationV06 :: "error + ValidationResultV06"
  simulationV07 :: "error + SimulateValidationResult"
  clock_ms :: int

text \<open>
  In \<open>getValidationResultV06\<close> the clock is \<open>Date.now() / 1000\<close>, a number with a
  fractional part. It is modelled as the exact rational. \<open>validAfter\<close> and
  \<open>validUntil\<close> are integers below \<open>2^48\<close>; a clock value that is not a whole
  second lies at least 0.001 away from every integer, while the rounding of the division
  and of the addition in double arithmetic moves it by less than 0.0003 for every clock
  value below \<open>10^15\<close> ms. So each comparison has the same outcome in double
  arithmetic as with the exact rational.
\<close>

definition getValidationResultV06 ::
  "UnsafeValidator \<Rightarrow> Outside \<Rightarrow> UserOperationV06 \<Rightarrow> error + ValidationResultV06" where
  "getValidationResultV06 this out userOperation =
     (case simulationV06 out of
        Inl e \<Rightarrow> Inl e
      | Inr validationResult \<Rightarrow>
          if sigFailed06 (returnInfo06 validationResult) then
            Inl (RpcError ''Invalid UserOp signature or  paymaster signature''
                   (Some InvalidSignature))
          else
            (let now = (of_int (clock_ms out) / 1000 :: rat)
             in if of_int (validAfter06 (returnInfo06 validationResult)) > now - 5 \<and>
                   \<not> disableExpirationCheck this then
                  Inl (RpcError ''User operation is not valid yet'' (Some ExpiresShortly))
                else if of_int (validUntil06 (returnInfo06 validationResult)) < now + 30 \<and>
                        \<not> disableExpirationCheck this then
                  Inl (RpcError ''expires too soon'' (Some ExpiresShortly))
                else Inr validationResult))"

text \<open>
  \<open>userOperation.factory && validationResult.factoryInfo ? {...} : undefined\<close>: the
  address must be present and not the empty string, and the info must be present.
\<close>

definition with_addr :: "string option \<Rightarrow> StakeInfo option \<Rightarrow> StakeInfoAddr option" where
  "with_addr address info =
     (case address of
        None \<Rightarrow> None
      | Some a \<Rightarrow>
          if a = [] then None
          else (case info of
                  None \<Rightarrow> None
                | Some i \<Rightarrow>
                    Some \<lparr> stake = stake i, unstakeDelaySec = unstakeDelaySec i, addr = a \<rparr>))"

definition getValidationResultV07 ::
  "UnsafeValidator \<Rightarrow> Outside \<Rightarrow> UserOperationV07 \<Rightarrow> error + ValidationResultV07" where
  "getValidationResultV07 this out userOperation =
     (if (case entryPointSimulationsAddress this of None \<Rightarrow> True | Some a \<Rightarrow> a = [])
      then Inl (Error ''entryPointSimulationsAddress is not set'')
      else
       (case simulationV07 out of
          Inl e \<Rightarrow> Inl e
        | Inr (failed reason) \<Rightarrow>
            Inl (RpcError (''UserOperation reverted with reason: '' @ reason)
                   (Some SimulateValidation))
        | Inr (validated validationResult) \<Rightarrow>
           (case mergeValidationDataValues
                   (accountValidationData (sim_returnInfo validationResult))
                   (paymasterValidationData (sim_returnInfo validationResult)) of
              Inl e \<Rightarrow> Inl e
            | Inr mergedValidation \<Rightarrow>
               (let res =
                  \<lparr> returnInfo07 =
                      \<lparr> preOpGas07 = preOpGas07 (sim_returnInfo validationResult),
                        prefund07 = prefund07 (sim_returnInfo validationResult),
                        accountValidationData =
                          accountValidationData (sim_returnInfo validationResult),
                        paymasterValidationData =
                          paymasterValidationData (sim_returnInfo validationResult),
                        paymasterContext07 = paymasterContext07 (sim_returnInfo validationResult),
                        accountSigFailed = accountSigFailed_m mergedValidation,
                        paymasterSigFailed = paymasterSigFailed_m mergedValidation,
                        validUntil07 = Some (validUntil_m mergedValidation),
                        validAfter07 = validAfter_m mergedValidation \<rparr>,
                    senderInfo07 =
                      \<lparr> stake = stake (sim_senderInfo validationResult),
                        unstakeDelaySec = unstakeDelaySec (sim_senderInfo validationResult),
                        addr = sender userOperation \<rparr>,
                    factoryInfo07 =
                      with_addr (factory userOperation) (sim_factoryInfo validationResult),
                    paymasterInfo07 =
                      with_addr (paymaster userOperation) (sim_paymasterInfo validationResult),
                    aggregatorInfo07 = sim_aggregatorInfo validationResult \<rparr>
                in if accountSigFailed (returnInfo07 res) then
                     Inl (RpcError ''Invalid UserOp signature'' (Some InvalidSignature))
                   else if paymasterSigFailed (returnInfo07 res) then
                     Inl (RpcError ''Invalid UserOp paymasterData'' (Some InvalidSignature))
                   else
                     (let now = clock_ms out div 1000
                      in if validAfter07 (returnInfo07 res) > now - 5 then
                           Inl (RpcError
                                  (''User operation is not valid yet, validAfter='' @
                                   show_int (validAfter07 (returnInfo07 res)) @
                                   '', now='' @ show_int now)
                                  (Some ExpiresShortly))
                         else
                           (case validUntil07 (returnInfo07 res) of
                              None \<Rightarrow>
                                Inl (RpcError
                                       (''UserOperation expires too soon, validUntil=null, now='' @
                                        show_int now)
                                       (Some ExpiresShortly))
                            | Some validUntil' \<Rightarrow>
                                if validUntil' < now + 30 then
                                  Inl (RpcError
                                         (''UserOperation expires too soon, validUntil='' @
                                          show_int validUntil' @ '', now='' @ show_int now)
                                         (Some ExpiresShortly))
                                else Inr res))))))"

definition getValidationResult ::
  "UnsafeValidator \<Rightarrow> Outside \<Rightarrow> UserOperation \<Rightarrow> error + ValidationResult" where
  "getValidationResult this out userOperation =
     (case userOperation of
        V06 u \<Rightarrow>
          (case getValidationResultV06 this out u of
             Inl e \<Rightarrow> Inl e
           | Inr r \<Rightarrow> Inr (Result06 r))
      | V07 u \<Rightarrow>
          (case getValidationResultV07 this out u of
             Inl e \<Rightarrow> Inl e
           | Inr r \<Rightarrow> Inr (Result07 r)))"

text \<open>
  \<open>validatePreVerificationGas\<close>. The function \<open>calcPreVerificationGas\<close> lives in
  \<open>@alto/utils\<close> and asks the chain; its outcome for the operation is the argument
  \<open>calcPreVerificationGas\<close> (an error when the promise rejects).
\<close>

definition validatePreVerificationGas ::
  "UnsafeValidator \<Rightarrow> error + int \<Rightarrow> UserOperation \<Rightarrow> error + unit" where
  "validatePreVerificationGas this calcPreVerificationGas userOperation =
     (if apiVersion this \<noteq> ''v1'' then
        (case calcPreVerificationGas of
           Inl e \<Rightarrow> Inl e
         | Inr preVerificationGas' \<Rightarrow>
             if preVerificationGas' > preVerificationGas_of userOperation then
               Inl (RpcError
                      (''preVerificationGas is not enough, required: '' @
                       show_int preVerificationGas' @ '', got: '' @
                       show_int (preVerificationGas_of userOperation))
                      (Some SimulateValidation))
             else Inr ())
      else Inr ())"

text \<open>
  The factor \<open>mul\<close> of \<open>validateUserOperation\<close>: it starts at \<open>1n\<close> and two
  conditionals in sequence may set it to \<open>3n\<close>. A string is truthy when it is not
  empty.
\<close>

definition prefund_mul :: "UserOperation \<Rightarrow> int" where
  "prefund_mul userOperation =
     (let mul0 = 1;
          mul1 = (if isVersion06 userOperation \<and>
                     (case userOperation of V06 u \<Rightarrow> paymasterAndData u \<noteq> [] | V07 _ \<Rightarrow> False)
                  then 3 else mul0);
          mul2 = (if isVersion07 userOperation \<and>
                     (case userOperation of V06 _ \<Rightarrow> False | V07 u \<Rightarrow> paymaster u = Some ''0x'')
                  then 3 else mul1)
      in mul2)"

text \<open>
  \<open>validateUserOperation\<close>. The function \<open>calcVerificationGasAndCallGasLimit\<close>
  lives in \<open>@alto/utils\<close>; it is the argument \<open>calcLimits\<close>, applied to the
  operation, \<open>preOpGas\<close>, \<open>paid\<close> and the chain id, and returns the pair
  \<open>[verificationGasLimit, callGasLimit]\<close>. The result is paired with the validator,
  whose counters have changed.
\<close>

definition validateUserOperation ::
  "UnsafeValidator \<Rightarrow> (UserOperation \<Rightarrow> int \<Rightarrow> int \<Rightarrow> int \<Rightarrow> int \<times> int) \<Rightarrow> Outside
     \<Rightarrow> UserOperation \<Rightarrow> (error + ValidationResult) \<times> UnsafeValidator" where
  "validateUserOperation this calcLimits out userOperation =
     (let failure =
            this\<lparr> userOperationsValidationFailure := userOperationsValidationFailure this + 1 \<rparr>;
          success =
            this\<lparr> userOperationsValidationSuccess := userOperationsValidationSuccess this + 1 \<rparr>
      in case getValidationResult this out userOperation of
           Inl e \<Rightarrow> (Inl e, failure)
         | Inr validationResult \<Rightarrow>
             if apiVersion this \<noteq> ''v1'' then
               (let prefund = prefund_of validationResult;
                    limits = calcLimits userOperation (preOpGas_of validationResult)
                               (prefund_of validationResult) (chainId this);
                    verificationGasLimit' = fst limits;
                    callGasLimit' = snd limits;
                    mul = prefund_mul userOperation;
                    requiredPreFund =
                      callGasLimit' + verificationGasLimit' * mul +
                      preVerificationGas_of userOperation
                in if requiredPreFund > prefund then
                     (Inl (RpcError
                             (''prefund is not enough, required: '' @ show_int requiredPreFund @
                              '', got: '' @ show_int prefund)
                             (Some SimulateValidation)),
                      failure)
                   else (Inr validationResult, success))
             else (Inr validationResult, success))"

section \<open>Specification-side notions\<close>

text \<open>
  The definitions of this section follow the words of the specification, not the source;
  the theorems compare them with the source.

  The insertion rule of a queue, on pairs \<open>(price, timestamp)\<close>: push when the queue is
  empty or the tail is at least 1000 ms old, evicting the front entry when the queue is at
  capacity \<open>W\<close>; otherwise overwrite the tail when the new price is strictly lower;
  otherwise leave the queue as it is.
\<close>

definition insertion_rule ::
  "int \<Rightarrow> (int \<times> int) list \<Rightarrow> int \<Rightarrow> int \<Rightarrow> (int \<times> int) list" where
  "insertion_rule W q price t_ms =
     (if q = [] \<or> t_ms - snd (last q) \<ge> 1000
      then (if int (length q) \<ge> W then tl q else q) @ [(price, t_ms)]
      else if price < fst (last q) then butlast q @ [(price, t_ms)]
      else q)"

text \<open>The two queues of the source, read as lists of pairs \<open>(price, timestamp)\<close>.\<close>

definition fee_view :: "MaxFeeEntry list \<Rightarrow> (int \<times> int) list" where
  "fee_view queue = map (\<lambda>e. (mf_maxFeePerGas e, mf_timestamp e)) queue"

definition priority_view :: "MaxPriorityFeeEntry list \<Rightarrow> (int \<times> int) list" where
  "priority_view queue = map (\<lambda>e. (mp_maxPriorityFeePerGas e, mp_timestamp e)) queue"

text \<open>
  The states a gas price manager can be in: those reached from the constructor by calls
  of \<open>getGasPrice\<close>, one for each state of the outside world in the list.
\<close>

definition run_getGasPrice :: "World list \<Rightarrow> GasPriceManager \<Rightarrow> GasPriceManager" where
  "run_getGasPrice ws this = foldl (\<lambda>m w. snd (getGasPrice w m)) this ws"

definition queues_within :: "GasPriceManager \<Rightarrow> bool" where
  "queues_within this =
     (int (length (queueMaxFeePerGas this)) \<le> max (maxQueueSize this) 1 \<and>
      int (length (queueMaxPriorityFeePerGas this)) \<le> max (maxQueueSize this) 1)"

text \<open>
  A 256-bit word \<open>w\<close> viewed as 32 big-endian bytes: \<open>bytes_be w i j\<close> is the number
  that the bytes \<open>[i, j)\<close> spell.
\<close>

definition bytes_be :: "int \<Rightarrow> nat \<Rightarrow> nat \<Rightarrow> int" where
  "bytes_be w i j = (w div 256 ^ (32 - j)) mod 256 ^ (j - i)"

text \<open>
  An error message mentions a word when the word occurs in it as a run of consecutive
  characters.
\<close>

definition mentions :: "string \<Rightarrow> string \<Rightarrow> bool" where
  "mentions message word =
     list_ex (\<lambda>i. take (length word) (drop i message) = word) [0..<Suc (length message)]"

text \<open>Auxiliary notions for the proofs about hexadecimal text.\<close>

definition all_hex :: "string \<Rightarrow> bool" where
  "all_hex ds = list_all (\<lambda>c. hex_value c \<noteq> None) ds"

definition padded_digits :: "int \<Rightarrow> string" where
  "padded_digits w =
     replicate (64 - length (toString16 (nat w))) (CHR ''0'') @ toString16 (nat w)"

section \<open>Concrete inputs\<close>

text \<open>
  A client whose latest block is empty: base fee 1 gwei, gas limit 30000000 (so the
  target is 15000000), no gas used. The node reports a legacy gas price of 1 gwei and no
  EIP-1559 estimate.
\<close>

definition quiet_client :: PublicClient where
  "quiet_client =
     \<lparr> getBlock =
         Inr \<lparr> baseFeePerGas = Some 1000000000, gasUsed = 0, gasLimit = 30000000 \<rparr>,
       getGasPrice_rpc = Inr 1000000000,
       getFeeHistory_reward = Inr None,
       estimateFeesPerGas = Inr (None, None),
       estimateFeesPerGas_legacy = Inr (Some 1000000000) \<rparr>"

definition quiet_world :: World where
  "quiet_world =
     \<lparr> publicClient = quiet_client, gasStation_fast = None, Date_now = 1700000000000 \<rparr>"

text \<open>
  Two user operations with the same gas fields: a v0.7 operation that names a paymaster,
  and a v0.6 operation without one.
\<close>

definition sponsored_op_v07 :: UserOperation where
  "sponsored_op_v07 = V07
     \<lparr> sender = ''0x1111111111111111111111111111111111111111'', nonce = 0, callData = ''0x'',
       callGasLimit = 50000, verificationGasLimit = 100000, preVerificationGas = 50000,
       uo_maxFeePerGas = 1000000000, uo_maxPriorityFeePerGas = 1000000000, signature = ''0x'',
       factory = None, factoryData = None,
       paymaster = Some ''0x2222222222222222222222222222222222222222'',
       paymasterVerificationGasLimit = Some 100000, paymasterPostOpGasLimit = Some 0,
       paymasterData = Some ''0x'' \<rparr>"

definition plain_op_v06 :: UserOperationV06 where
  "plain_op_v06 =
     \<lparr> sender = ''0x1111111111111111111111111111111111111111'', nonce = 0, callData = ''0x'',
       callGasLimit = 50000, verificationGasLimit = 100000, preVerificationGas = 50000,
       uo_maxFeePerGas = 1000000000, uo_maxPriorityFeePerGas = 1000000000, signature = ''0x'',
       initCode = ''0x'', paymasterAndData = ''0x'' \<rparr>"

text \<open>A stand-in for \<open>calcVerificationGasAndCallGasLimit\<close>: the limits the operation declares.\<close>

definition declared_limits :: "UserOperation \<Rightarrow> int \<Rightarrow> int \<Rightarrow> int \<Rightarrow> int \<times> int" where
  "declared_limits userOperation preOpGas paid chain =
     (case userOperation of
        V06 u \<Rightarrow> (verificationGasLimit u, callGasLimit u)
      | V07 u \<Rightarrow> (verificationGasLimit u, callGasLimit u))"

definition validator_v2 :: "bool \<Rightarrow> UnsafeValidator" where
  "validator_v2 disableExpiration =
     \<lparr> disableExpirationCheck = disableExpiration, apiVersion = ''v2'', chainId = 1,
       entryPointSimulationsAddress = Some ''0x3333333333333333333333333333333333333333'',
       userOperationsValidationSuccess = 0, userOperationsValidationFailure = 0 \<rparr>"

definition no_stake :: StakeInfo where
  "no_stake = \<lparr> stake = 0, unstakeDelaySec = 0 \<rparr>"

text \<open>
  A packed validation data word with \<open>validAfter = 2000000000\<close> (a time in 2033),
  no \<open>validUntil\<close> and the zero aggregator.
\<close>

definition valid_from_2033 :: int where
  "valid_from_2033 = 2000000000 * 2 ^ 208"

text \<open>
  The outside world at the clock value \<open>1700000000500\<close> ms. For v0.7 the simulation
  returns the given prefund and validation data; for v0.6 it returns the given
  \<open>validAfter\<close> and \<open>validUntil\<close> and a prefund of \<open>10^18\<close>.
\<close>

definition outside_v07 :: "int \<Rightarrow> int \<Rightarrow> int \<Rightarrow> Outside" where
  "outside_v07 prefund accountData paymasterData' =
     \<lparr> simulationV06 = Inl (Error ''not called''),
       simulationV07 = Inr (validated
         \<lparr> sim_returnInfo =
             \<lparr> preOpGas07 = 150000, prefund07 = prefund, accountValidationData = accountData,
               paymasterValidationData = paymasterData', paymasterContext07 = ''0x'' \<rparr>,
           sim_senderInfo = no_stake, sim_factoryInfo = None,
           sim_paymasterInfo = Some no_stake, sim_aggregatorInfo = None \<rparr>),
       clock_ms = 1700000000500 \<rparr>"

definition outside_v06 :: "int \<Rightarrow> int \<Rightarrow> Outside" where
  "outside_v06 validAfter' validUntil' =
     \<lparr> simulationV06 = Inr
         \<lparr> returnInfo06 =
             \<lparr> preOpGas06 = 50000, prefund06 = 1000000000000000000, sigFailed06 = False,
               validAfter06 = validAfter', validUntil06 = validUntil',
               paymasterContext06 = ''0x'' \<rparr>,
           senderInfo06 = no_stake, factoryInfo06 = no_stake, paymasterInfo06 = no_stake,
           aggregatorInfo06 = None \<rparr>,
       simulationV07 = Inl (Error ''not called''),
       clock_ms = 1700000000500 \<rparr>"

section \<open>Properties of the gas price manager\<close>

subsection \<open>Truncating division\<close>

lemma tdiv_nonneg_eq: "0 \<le> a \<Longrightarrow> 0 < c \<Longrightarrow> tdiv a c = a div c"
  by (cases "a = 0") (simp_all add: tdiv_def)

lemma tdiv_neg_eq: "a < 0 \<Longrightarrow> 0 < c \<Longrightarrow> tdiv a c = - ((- a) div c)"
  by (simp add: tdiv_def)

lemma tdiv_minus: "0 \<le> k \<Longrightarrow> 0 < c \<Longrightarrow> tdiv (- k) c = - (k div c)"
  by (cases "k = 0") (simp_all add: tdiv_def)

lemma tdiv_mono:
  assumes "0 < c" "a \<le> b"
  shows "tdiv a c \<le> tdiv b c"
proof (cases "0 \<le> a")
  case True
  with assms show ?thesis by (simp add: tdiv_nonneg_eq zdiv_mono1)
next
  case a: False
  show ?thesis
  proof (cases "0 \<le> b")
    case True
    have "tdiv a c \<le> 0"
      using a assms(1) by (simp add: tdiv_neg_eq pos_imp_zdiv_nonneg_iff)
    moreover have "0 \<le> tdiv b c"
      using True assms(1) by (simp add: tdiv_nonneg_eq pos_imp_zdiv_nonneg_iff)
    ultimately show ?thesis by simp
  next
    case False
    with a assms show ?thesis by (simp add: tdiv_neg_eq zdiv_mono1)
  qed
qed

subsection \<open>Bumping keeps the order of the two fees\<close>

lemma getBumpAmount_pos: "0 < getBumpAmount c"
  by (simp add: getBumpAmount_def)

lemma bumpTheGasPrice_ordered:
  "maxPriorityFeePerGas (bumpTheGasPrice this g) \<le> maxFeePerGas (bumpTheGasPrice this g)"
proof -
  let ?b = "getBumpAmount (chain_id this)"
  let ?p = "maxBigInt (maxPriorityFeePerGas g) (getDefaultGasFee (chain_id this))"
  let ?f = "maxBigInt (maxFeePerGas g) ?p"
  have "?p \<le> ?f" by (simp add: maxBigInt_def)
  then have "?p * ?b \<le> ?f * ?b"
    using getBumpAmount_pos [of "chain_id this"] by (simp add: mult_right_mono)
  then have "tdiv (?p * ?b) 100 \<le> tdiv (?f * ?b) 100"
    by (rule tdiv_mono [rotated]) simp
  then show ?thesis
    by (simp add: bumpTheGasPrice_def Let_def maxBigInt_def)
qed

lemma bump_save_return_fst:
  "fst (bump_save_return this a b n e) = Inr (bumpTheGasPrice this e)"
  by (simp add: bump_save_return_def Let_def)

lemma bump_save_return_snd:
  "snd (bump_save_return this a b n e) =
     saveGasPrice
       \<lparr> maxFeePerGas = maxBigInt (maxFeePerGas (bumpTheGasPrice this e)) a,
         maxPriorityFeePerGas = maxBigInt (maxPriorityFeePerGas (bumpTheGasPrice this e)) b \<rparr>
       n this"
  by (simp add: bump_save_return_def Let_def)

text \<open>
  Claim C10. Every \<open>GasPriceParameters\<close> that \<open>getGasPrice\<close> returns has
  \<open>maxFeePerGas \<ge> maxPriorityFeePerGas\<close>: each of the three return paths returns what
  \<open>bumpTheGasPrice\<close> produced, and bumping raises the max fee to the priority fee
  before it scales both by the same percentage (on Celo it sets both equal).
\<close>

theorem getGasPrice_fee_order:
  "fst (getGasPrice w this) = Inr gp \<Longrightarrow> maxPriorityFeePerGas gp \<le> maxFeePerGas gp"
  by (auto simp: getGasPrice_def Let_def bump_save_return_fst bumpTheGasPrice_ordered
           split: option.splits sum.splits if_splits)

theorem getGasPrice_fee_order_witness:
  "fst (getGasPrice quiet_world (new_GasPriceManager chains_mainnet_id False 10)) =
     Inr \<lparr> maxFeePerGas = 1248750000, maxPriorityFeePerGas = 6243750 \<rparr> \<and>
   (6243750::int) \<le> 1248750000"
proof -
  have r: "fst (getGasPrice quiet_world (new_GasPriceManager chains_mainnet_id False 10)) =
      Inr \<lparr> maxFeePerGas = 1248750000, maxPriorityFeePerGas = 6243750 \<rparr>"
    by (simp add: getGasPrice_def bump_save_return_def bumpTheGasPrice_def getBumpAmount_def
      getDefaultGasFee_def estimateGasPrice_def getFallBackMaxPriorityFeePerGas_def
      getNextBaseFee_def currentBaseFeePerGas_of_def new_GasPriceManager_def quiet_world_def
      quiet_client_def maxBigInt_def minBigInt_def tdiv_def bigint_div_def Let_def
      ChainId_Polygon_def ChainId_Mumbai_def chains_sepolia_id_def chains_celo_id_def
      chains_arbitrum_id_def chains_scroll_id_def chains_scrollSepolia_id_def
      chains_arbitrumGoerli_id_def chains_mainnet_id_def chains_mantle_id_def
      chains_base_id_def chains_dfk_id_def chains_celoAlfajores_id_def
      chains_celoCannoli_id_def chains_avalanche_id_def chains_polygon_id_def
      chains_polygonMumbai_id_def)
  from getGasPrice_fee_order [OF r] r show ?thesis by simp
qed

text \<open>
  Claim C4. On a chain with a floor (DFK: 5 gwei for each component) the claim has every
  result of \<open>getGasPrice\<close> at least the floor. The source raises to the floor only the
  price it records in the queues and returns the bumped price as it is: on DFK, without
  EIP-1559 support and with a node that reports 1 gwei, \<open>getGasPrice\<close> returns 1.11 gwei
  for both components while it records 5 gwei in both queues.
\<close>

theorem getGasPrice_dfk_below_floor:
  "getGasPrice quiet_world (new_GasPriceManager chains_dfk_id True 10) =
     (Inr \<lparr> maxFeePerGas = 1110000000, maxPriorityFeePerGas = 1110000000 \<rparr>,
      \<lparr> chain_id = chains_dfk_id, noEip1559Support = True,
        queueMaxFeePerGas =
          [\<lparr> mf_timestamp = 1700000000000, mf_maxFeePerGas = 5000000000 \<rparr>],
        queueMaxPriorityFeePerGas =
          [\<lparr> mp_timestamp = 1700000000000, mp_maxPriorityFeePerGas = 5000000000 \<rparr>],
        maxQueueSize = 10 \<rparr>) \<and>
   (1110000000::int) < 5000000000"
  by (simp add: getGasPrice_def bump_save_return_def bumpTheGasPrice_def getBumpAmount_def
      getDefaultGasFee_def getNoEip1559SupportGasPrice_def saveGasPrice_def
      saveMaxFeePerGas_def saveMaxPriorityFeePerGas_def shift_def new_GasPriceManager_def
      quiet_world_def quiet_client_def maxBigInt_def tdiv_def Let_def
      ChainId_Polygon_def ChainId_Mumbai_def chains_sepolia_id_def chains_celo_id_def
      chains_arbitrum_id_def chains_scroll_id_def chains_scrollSepolia_id_def
      chains_arbitrumGoerli_id_def chains_mainnet_id_def chains_mantle_id_def
      chains_base_id_def chains_dfk_id_def chains_celoAlfajores_id_def
      chains_celoCannoli_id_def chains_avalanche_id_def chains_polygon_id_def
      chains_polygonMumbai_id_def)

subsection \<open>The projected base fee\<close>

text \<open>
  What the source computes when the block used less gas than the target: the base fee
  plus \<open>base \<cdot> (target - gasUsed) / target / 8\<close>, since the delta it subtracts is
  negative.
\<close>

lemma getNextBaseFee_below_target_general:
  assumes "getBlock pc = Inr block" "baseFeePerGas block = Some base" "0 < base"
    and "tdiv (gasLimit block) 2 = target" "gasUsed block < target" "0 < target"
  shows "getNextBaseFee pc = Inr (base + base * (target - gasUsed block) div target div 8)"
proof -
  let ?k = "base * (target - gasUsed block)"
  have k: "0 \<le> ?k" using assms by simp
  have "base * (gasUsed block - target) = - ?k" by (simp add: algebra_simps)
  then have "tdiv (base * (gasUsed block - target)) target = - (?k div target)"
    using tdiv_minus [OF k \<open>0 < target\<close>] by simp
  moreover have "0 \<le> ?k div target"
    using k \<open>0 < target\<close> by (simp add: pos_imp_zdiv_nonneg_iff)
  ultimately have "tdiv (tdiv (base * (gasUsed block - target)) target) 8 = - (?k div target div 8)"
    using tdiv_minus [of "?k div target" 8] by simp
  then show ?thesis
    using assms
    by (simp add: getNextBaseFee_def currentBaseFeePerGas_of_def bigint_div_def Let_def)
qed

lemma getNextBaseFee_at_or_above_target:
  assumes "getBlock pc = Inr block" "baseFeePerGas block = Some base" "0 < base"
    and "tdiv (gasLimit block) 2 = target" "target \<le> gasUsed block" "0 < target"
  shows "getNextBaseFee pc =
     Inr (if gasUsed block = target then base
          else base + max (base * (gasUsed block - target) div target div 8) 1)"
proof -
  let ?k = "base * (gasUsed block - target)"
  have k: "0 \<le> ?k" using assms by simp
  then have "0 \<le> ?k div target"
    using \<open>0 < target\<close> by (simp add: pos_imp_zdiv_nonneg_iff)
  then have "tdiv (tdiv ?k target) 8 = ?k div target div 8"
    using k \<open>0 < target\<close> by (simp add: tdiv_nonneg_eq)
  then show ?thesis
    using assms
    by (simp add: getNextBaseFee_def currentBaseFeePerGas_of_def bigint_div_def Let_def
        maxBigInt_def max_def)
qed

text \<open>
  Claim C5. For \<open>gasUsed < target\<close> the claim has the projected base fee be
  \<open>base - base \<cdot> (target - gasUsed) / target / 8\<close>, a value not above the base. The
  source computes the delta from \<open>gasUsed - target\<close>, which is negative, and subtracts
  it: with a base fee of 1 gwei, gas limit 30000000 and no gas used the claim gives
  0.875 gwei and \<open>getNextBaseFee\<close> returns 1.125 gwei, above the base fee.
\<close>

theorem getNextBaseFee_below_target_increases:
  "getNextBaseFee quiet_client = Inr 1125000000 \<and>
   (1000000000 - 1000000000 * (15000000 - 0) div 15000000 div 8 = (875000000::int)) \<and>
   (1125000000::int) > 1000000000"
  by (simp add: getNextBaseFee_def currentBaseFeePerGas_of_def quiet_client_def
      tdiv_def bigint_div_def Let_def)

subsection \<open>The queues\<close>

lemma shift_tl: "shift q = tl q"
  by (cases q) (simp_all add: shift_def)

lemma saveMaxFeePerGas_queue:
  "fee_view (queueMaxFeePerGas (saveMaxFeePerGas p t this)) =
     insertion_rule (maxQueueSize this) (fee_view (queueMaxFeePerGas this)) p t"
proof (cases "queueMaxFeePerGas this" rule: rev_cases)
  case Nil
  then show ?thesis
    by (simp add: saveMaxFeePerGas_def insertion_rule_def fee_view_def shift_tl Let_def)
next
  case (snoc ys y)
  then show ?thesis
    by (simp add: saveMaxFeePerGas_def insertion_rule_def fee_view_def shift_tl Let_def map_tl)
qed

lemma saveMaxPriorityFeePerGas_queue:
  "priority_view (queueMaxPriorityFeePerGas (saveMaxPriorityFeePerGas p t this)) =
     insertion_rule (maxQueueSize this) (priority_view (queueMaxPriorityFeePerGas this)) p t"
proof (cases "queueMaxPriorityFeePerGas this" rule: rev_cases)
  case Nil
  then show ?thesis
    by (simp add: saveMaxPriorityFeePerGas_def insertion_rule_def priority_view_def shift_tl
        Let_def)
next
  case (snoc ys y)
  then show ?thesis
    by (simp add: saveMaxPriorityFeePerGas_def insertion_rule_def priority_view_def shift_tl
        Let_def map_tl)
qed

lemma length_insertion_rule:
  "int (length q) \<le> max W 1 \<Longrightarrow> int (length (insertion_rule W q p t)) \<le> max W 1"
  by (cases q rule: rev_cases) (auto simp: insertion_rule_def)

lemma saveMaxFeePerGas_other [simp]:
  "maxQueueSize (saveMaxFeePerGas p t this) = maxQueueSize this"
  "queueMaxPriorityFeePerGas (saveMaxFeePerGas p t this) = queueMaxPriorityFeePerGas this"
  "chain_id (saveMaxFeePerGas p t this) = chain_id this"
  "noEip1559Support (saveMaxFeePerGas p t this) = noEip1559Support this"
  by (simp_all add: saveMaxFeePerGas_def Let_def split: option.splits)

lemma saveMaxPriorityFeePerGas_other [simp]:
  "maxQueueSize (saveMaxPriorityFeePerGas p t this) = maxQueueSize this"
  "queueMaxFeePerGas (saveMaxPriorityFeePerGas p t this) = queueMaxFeePerGas this"
  "chain_id (saveMaxPriorityFeePerGas p t this) = chain_id this"
  "noEip1559Support (saveMaxPriorityFeePerGas p t this) = noEip1559Support this"
  by (simp_all add: saveMaxPriorityFeePerGas_def Let_def split: option.splits)

lemma length_fee_view: "length (fee_view q) = length q"
  by (simp add: fee_view_def)

lemma length_priority_view: "length (priority_view q) = length q"
  by (simp add: priority_view_def)

lemma saveGasPrice_within:
  assumes "queues_within this"
  shows "queues_within (saveGasPrice g t this)"
proof -
  have "int (length (fee_view (queueMaxFeePerGas (saveMaxFeePerGas (maxFeePerGas g) t this))))
          \<le> max (maxQueueSize this) 1"
    unfolding saveMaxFeePerGas_queue
    using assms by (intro length_insertion_rule) (simp add: queues_within_def length_fee_view)
  moreover have "int (length (priority_view (queueMaxPriorityFeePerGas
           (saveMaxPriorityFeePerGas (maxPriorityFeePerGas g) t
              (saveMaxFeePerGas (maxFeePerGas g) t this)))))
          \<le> max (maxQueueSize this) 1"
    unfolding saveMaxPriorityFeePerGas_queue
    using assms by (simp add: length_insertion_rule queues_within_def length_priority_view)
  ultimately show ?thesis
    by (simp add: queues_within_def saveGasPrice_def length_fee_view length_priority_view)
qed

lemma saveGasPrice_maxQueueSize [simp]:
  "maxQueueSize (saveGasPrice g t this) = maxQueueSize this"
  by (simp add: saveGasPrice_def)

lemma getGasPrice_within: "queues_within this \<Longrightarrow> queues_within (snd (getGasPrice w this))"
  by (simp add: getGasPrice_def Let_def bump_save_return_snd saveGasPrice_within
           split: option.splits sum.splits)

lemma getGasPrice_maxQueueSize [simp]:
  "maxQueueSize (snd (getGasPrice w this)) = maxQueueSize this"
  by (simp add: getGasPrice_def Let_def bump_save_return_snd split: option.splits sum.splits)

lemma run_getGasPrice_within:
  "queues_within this \<Longrightarrow> queues_within (run_getGasPrice ws this)"
  unfolding run_getGasPrice_def
  by (induction ws arbitrary: this) (simp_all add: getGasPrice_within)

lemma run_getGasPrice_maxQueueSize [simp]:
  "maxQueueSize (run_getGasPrice ws this) = maxQueueSize this"
  unfolding run_getGasPrice_def
  by (induction ws arbitrary: this) simp_all

lemma new_GasPriceManager_within: "queues_within (new_GasPriceManager c n W)"
  by (simp add: queues_within_def new_GasPriceManager_def)

text \<open>
  Claim C9, as stated: neither queue ever holds more than \<open>W\<close> entries. This fails for
  \<open>W = 0\<close>: the first call of \<open>getGasPrice\<close> pushes one entry on each empty queue
  (\<open>shift\<close> on the empty queue removes nothing), so both queues hold one entry.
\<close>

theorem queue_capacity_zero_counterexample:
  "\<not> int (length (queueMaxFeePerGas
              (snd (getGasPrice quiet_world (new_GasPriceManager chains_mainnet_id True 0)))))
       \<le> maxQueueSize (new_GasPriceManager chains_mainnet_id True 0)"
  by (simp add: getGasPrice_def bump_save_return_def bumpTheGasPrice_def getBumpAmount_def
      getDefaultGasFee_def getNoEip1559SupportGasPrice_def saveGasPrice_def
      saveMaxFeePerGas_def saveMaxPriorityFeePerGas_def shift_def new_GasPriceManager_def
      quiet_world_def quiet_client_def maxBigInt_def tdiv_def Let_def
      ChainId_Polygon_def ChainId_Mumbai_def chains_sepolia_id_def chains_celo_id_def
      chains_arbitrum_id_def chains_scroll_id_def chains_scrollSepolia_id_def
      chains_arbitrumGoerli_id_def chains_mainnet_id_def chains_mantle_id_def
      chains_base_id_def chains_dfk_id_def chains_celoAlfajores_id_def
      chains_celoCannoli_id_def chains_avalanche_id_def chains_polygon_id_def
      chains_polygonMumbai_id_def)

text \<open>
  Claim C9, amended. In every state that calls of \<open>getGasPrice\<close> reach from the
  constructor, each of the two queues holds at most \<open>max W 1\<close> entries, hence at most
  \<open>W\<close> whenever \<open>W \<ge> 1\<close>; and every insertion in either queue is the insertion rule
  of the specification: push when the queue is empty or the tail is at least 1000 ms old
  (dropping the front entry when the queue is at capacity), otherwise overwrite the tail
  with the new price and timestamp when the new price is strictly lower, otherwise leave
  the queue unchanged.
\<close>

theorem queues_bounded_and_insertion_rule:
  "int (length (queueMaxFeePerGas (run_getGasPrice ws (new_GasPriceManager c n W)))) \<le> max W 1 \<and>
   int (length (queueMaxPriorityFeePerGas (run_getGasPrice ws (new_GasPriceManager c n W))))
     \<le> max W 1 \<and>
   fee_view (queueMaxFeePerGas (saveMaxFeePerGas p t this)) =
     insertion_rule (maxQueueSize this) (fee_view (queueMaxFeePerGas this)) p t \<and>
   priority_view (queueMaxPriorityFeePerGas (saveMaxPriorityFeePerGas p t this)) =
     insertion_rule (maxQueueSize this) (priority_view (queueMaxPriorityFeePerGas this)) p t"
proof -
  have "queues_within (run_getGasPrice ws (new_GasPriceManager c n W))"
    by (rule run_getGasPrice_within [OF new_GasPriceManager_within])
  moreover have "maxQueueSize (run_getGasPrice ws (new_GasPriceManager c n W)) = W"
    by (simp add: new_GasPriceManager_def)
  ultimately show ?thesis
    by (simp add: queues_within_def saveMaxFeePerGas_queue saveMaxPriorityFeePerGas_queue)
qed

section \<open>Properties of the validation data codec\<close>

subsection \<open>Hexadecimal text\<close>

lemma hex_value_digit_char_all: "\<forall>d\<in>set [0..<16]. hex_value (digit_char d) = Some d"
  by code_simp

lemma hex_value_digit_char: "d < 16 \<Longrightarrow> hex_value (digit_char d) = Some d"
  using hex_value_digit_char_all by simp

lemma hex_value_less: "hex_value c = Some d \<Longrightarrow> d < 16"
  by (auto simp: hex_value_def Let_def split: if_splits)

lemma hex_value_zero: "hex_value c = Some 0 \<Longrightarrow> c = CHR ''0''"
proof -
  assume "hex_value c = Some 0"
  then have "of_char c = (48::nat)"
    by (auto simp: hex_value_def Let_def split: if_splits)
  moreover have "(of_char (CHR ''0'') :: nat) = 48" by simp
  ultimately have "(of_char c :: nat) = of_char (CHR ''0'')" by (simp only:)
  then show ?thesis by (simp only: of_char_eq_iff)
qed

lemma all_hex_simps [simp]:
  "all_hex []"
  "all_hex (c # cs) = (hex_value c \<noteq> None \<and> all_hex cs)"
  "all_hex (xs @ ys) = (all_hex xs \<and> all_hex ys)"
  by (simp_all add: all_hex_def)

lemma all_hex_take: "all_hex xs \<Longrightarrow> all_hex (take k xs)"
  by (simp add: all_hex_def list_all_iff) (meson in_set_takeD)

lemma all_hex_drop: "all_hex xs \<Longrightarrow> all_hex (drop k xs)"
  by (simp add: all_hex_def list_all_iff) (meson in_set_dropD)

lemma all_hex_replicate_zero: "all_hex (replicate k (CHR ''0''))"
  by (simp add: all_hex_def list_all_iff hex_value_def)

lemma hex_digits_value_snoc:
  "hex_digits_value (xs @ [c]) =
     (case hex_value c of None \<Rightarrow> hex_digits_value xs | Some d \<Rightarrow> 16 * hex_digits_value xs + d)"
  unfolding hex_digits_value_def by simp

lemma hex_digits_value_Nil [simp]: "hex_digits_value [] = 0"
  by (simp add: hex_digits_value_def)

lemma hex_digits_value_append:
  "all_hex ys \<Longrightarrow>
     hex_digits_value (xs @ ys) = hex_digits_value xs * 16 ^ length ys + hex_digits_value ys"
proof (induction ys rule: rev_induct)
  case Nil
  then show ?case by simp
next
  case (snoc c ys)
  then obtain d where d: "hex_value c = Some d" by auto
  from snoc have "hex_digits_value (xs @ ys) = hex_digits_value xs * 16 ^ length ys + hex_digits_value ys"
    by simp
  then show ?case
    using d hex_digits_value_snoc [of "xs @ ys" c] hex_digits_value_snoc [of ys c]
    by (simp add: algebra_simps)
qed

lemma hex_digits_value_less: "all_hex xs \<Longrightarrow> hex_digits_value xs < 16 ^ length xs"
proof (induction xs rule: rev_induct)
  case Nil
  then show ?case by simp
next
  case (snoc c xs)
  then obtain d where d: "hex_value c = Some d" by auto
  then have "d < 16" by (rule hex_value_less)
  moreover from snoc have "hex_digits_value xs < 16 ^ length xs" by simp
  ultimately show ?case
    using d by (simp add: hex_digits_value_snoc)
qed

lemma hex_digits_value_take:
  assumes "all_hex xs"
  shows "hex_digits_value (take k xs) = hex_digits_value xs div 16 ^ (length xs - k)"
proof -
  have "hex_digits_value (take k xs @ drop k xs) =
          hex_digits_value (take k xs) * 16 ^ length (drop k xs) + hex_digits_value (drop k xs)"
    using assms by (intro hex_digits_value_append all_hex_drop)
  moreover have "hex_digits_value (drop k xs) < 16 ^ length (drop k xs)"
    using assms by (intro hex_digits_value_less all_hex_drop)
  ultimately show ?thesis by simp
qed

lemma hex_digits_value_drop:
  assumes "all_hex xs"
  shows "hex_digits_value (drop k xs) = hex_digits_value xs mod 16 ^ (length xs - k)"
proof -
  have "hex_digits_value (take k xs @ drop k xs) =
          hex_digits_value (take k xs) * 16 ^ length (drop k xs) + hex_digits_value (drop k xs)"
    using assms by (intro hex_digits_value_append all_hex_drop)
  moreover have "hex_digits_value (drop k xs) < 16 ^ length (drop k xs)"
    using assms by (intro hex_digits_value_less all_hex_drop)
  ultimately show ?thesis by simp
qed

lemma hex_digits_value_zero:
  "all_hex xs \<Longrightarrow> hex_digits_value xs = 0 \<Longrightarrow> xs = replicate (length xs) (CHR ''0'')"
proof (induction xs rule: rev_induct)
  case Nil
  then show ?case by simp
next
  case (snoc c xs)
  then obtain d where d: "hex_value c = Some d" by auto
  with snoc.prems have "16 * hex_digits_value xs + d = 0"
    by (simp add: hex_digits_value_snoc)
  then have z: "hex_digits_value xs = 0" "d = 0" by simp_all
  with d have "c = CHR ''0''" by (simp add: hex_value_zero)
  moreover from snoc z have "xs = replicate (length xs) (CHR ''0'')" by simp
  ultimately show ?case
    by (metis length_append_singleton replicate_Suc replicate_append_same)
qed

lemma hex_digits_value_replicate_zero [simp]: "hex_digits_value (replicate k (CHR ''0'')) = 0"
  by (induction k) (simp_all add: hex_digits_value_def hex_value_def)

lemma all_hex_toString16: "all_hex (toString16 n)"
proof (induction n rule: toString16.induct)
  case (1 n)
  show ?case
  proof (cases "n < 16")
    case True
    then show ?thesis
      by (subst toString16.simps) (simp add: hex_value_digit_char)
  next
    case False
    with 1 have "all_hex (toString16 (n div 16))" by simp
    moreover have "hex_value (digit_char (n mod 16)) = Some (n mod 16)"
      by (simp add: hex_value_digit_char)
    ultimately show ?thesis
      using False by (subst toString16.simps) simp
  qed
qed

lemma hex_digits_value_toString16: "hex_digits_value (toString16 n) = n"
proof (induction n rule: toString16.induct)
  case (1 n)
  show ?case
  proof (cases "n < 16")
    case True
    then show ?thesis
      by (subst toString16.simps) (simp add: hex_digits_value_def hex_value_digit_char)
  next
    case False
    with 1 have "hex_digits_value (toString16 (n div 16)) = n div 16" by simp
    moreover have "hex_value (digit_char (n mod 16)) = Some (n mod 16)"
      by (simp add: hex_value_digit_char)
    ultimately show ?thesis
      using False by (subst toString16.simps) (simp add: hex_digits_value_snoc)
  qed
qed

lemma length_toString16: "0 < k \<Longrightarrow> n < 16 ^ k \<Longrightarrow> length (toString16 n) \<le> k"
proof (induction n arbitrary: k rule: toString16.induct)
  case (1 n)
  show ?case
  proof (cases "n < 16")
    case True
    then show ?thesis
      using "1.prems" by (subst toString16.simps) simp
  next
    case False
    with "1.prems" have k: "1 < k"
      by (cases "k = 1") auto
    then obtain j where j: "k = Suc j" "0 < j" by (cases k) auto
    with "1.prems" have "n div 16 < 16 ^ j"
      by (simp add: less_mult_imp_div_less mult.commute)
    with 1 False j have "length (toString16 (n div 16)) \<le> j" by simp
    then show ?thesis
      using False j by (subst toString16.simps) simp
  qed
qed

subsection \<open>Parsing a 256-bit word\<close>

lemma length_digits_u256: "0 \<le> w \<Longrightarrow> w < 2 ^ 256 \<Longrightarrow> length (toString16 (nat w)) \<le> 64"
proof -
  assume "0 \<le> w" "w < 2 ^ 256"
  then have "nat w < 16 ^ 64" by (simp add: nat_less_iff)
  then show ?thesis by (intro length_toString16) simp_all
qed

lemma padded_digits_props:
  assumes "0 \<le> w" "w < 2 ^ 256"
  shows "length (padded_digits w) = 64" "all_hex (padded_digits w)"
    "hex_digits_value (padded_digits w) = nat w"
proof -
  show "length (padded_digits w) = 64"
    using length_digits_u256 [OF assms] by (simp add: padded_digits_def)
  show "all_hex (padded_digits w)"
    by (simp add: padded_digits_def all_hex_replicate_zero all_hex_toString16)
  show "hex_digits_value (padded_digits w) = nat w"
    by (simp add: padded_digits_def hex_digits_value_append all_hex_toString16
        hex_digits_value_toString16)
qed

lemma parseInt16_hex:
  assumes "all_hex ds" "ds \<noteq> []"
  shows "parseInt16 (CHR ''0'' # CHR ''x'' # ds) = Some (int (hex_digits_value ds))"
proof -
  have "takeWhile (\<lambda>c. hex_value c \<noteq> None) ds = ds"
    using assms(1) by (simp add: all_hex_def list_all_iff)
  then show ?thesis
    using assms(2) unfolding parseInt16_def Let_def by (simp del: takeWhile_eq_all_conv)
qed

lemma strip0x_prefixed [simp]: "strip0x (CHR ''0'' # CHR ''x'' # ds) = ds"
  by (simp add: strip0x_def)

lemma slice_padded:
  assumes "length ds = 64"
  shows "slice (CHR ''0'' # CHR ''x'' # ds) 12 None = Inr (CHR ''0'' # CHR ''x'' # drop 24 ds)"
    "slice (CHR ''0'' # CHR ''x'' # ds) 6 (Some 12) =
       Inr (CHR ''0'' # CHR ''x'' # take 12 (drop 12 ds))"
    "slice (CHR ''0'' # CHR ''x'' # ds) 0 (Some 6) = Inr (CHR ''0'' # CHR ''x'' # take 12 ds)"
  using assms by (simp_all add: slice_def size_hex_def)

lemma parseValidationData_digits:
  assumes "0 \<le> w" "w < 2 ^ 256"
  shows "parseValidationData w =
     Inr \<lparr> aggregator = ''0x'' @ drop 24 (padded_digits w),
           validAfter = int (hex_digits_value (take 12 (padded_digits w))),
           validUntil =
             (if hex_digits_value (take 12 (drop 12 (padded_digits w))) = 0 then 2 ^ 48 - 1
              else int (hex_digits_value (take 12 (drop 12 (padded_digits w))))) \<rparr>"
proof -
  note p = padded_digits_props [OF assms]
  have h: "toHex w = Inr (CHR ''0'' # CHR ''x'' # toString16 (nat w))"
    using assms by (simp add: toHex_def)
  have pd: "pad (CHR ''0'' # CHR ''x'' # toString16 (nat w)) 32 =
      Inr (CHR ''0'' # CHR ''x'' # padded_digits w)"
    using length_digits_u256 [OF assms] by (simp add: pad_def padded_digits_def Let_def)
  have vu: "parseInt16 (CHR ''0'' # CHR ''x'' # take 12 (drop 12 (padded_digits w))) =
      Some (int (hex_digits_value (take 12 (drop 12 (padded_digits w)))))"
    using p by (intro parseInt16_hex all_hex_take all_hex_drop) auto
  have va: "parseInt16 (CHR ''0'' # CHR ''x'' # take 12 (padded_digits w)) =
      Some (int (hex_digits_value (take 12 (padded_digits w))))"
    using p by (intro parseInt16_hex all_hex_take) auto
  show ?thesis
    by (simp add: parseValidationData_def Let_def h pd slice_padded [OF p(1)] vu va)
qed

lemma div_mod_shift: "(n mod (a * b)) div a = (n div a) mod (b::nat)"
  by (metis add.right_neutral div_mult_self4 mod_by_0 mod_div_trivial
    mod_mult2_eq mod_mult_self2_is_0)


lemma bytes_be_validAfter:
  assumes "0 \<le> w" "w < 2 ^ 256"
  shows "int (hex_digits_value (take 12 (padded_digits w))) = bytes_be w 0 6"
proof -
  note p = padded_digits_props [OF assms]
  have "hex_digits_value (take 12 (padded_digits w)) = nat w div 16 ^ 52"
    using p by (simp add: hex_digits_value_take)
  then have "int (hex_digits_value (take 12 (padded_digits w))) = w div 16 ^ 52"
    using assms(1) by (simp add: zdiv_int)
  moreover have "w div 16 ^ 52 < 256 ^ 6"
    using assms by (simp add: div_less_iff_less_mult)
  moreover have "0 \<le> w div 16 ^ 52"
    using assms(1) by (simp add: pos_imp_zdiv_nonneg_iff)
  ultimately show ?thesis
    by (simp add: bytes_be_def)
qed

lemma bytes_be_validUntil:
  assumes "0 \<le> w" "w < 2 ^ 256"
  shows "int (hex_digits_value (take 12 (drop 12 (padded_digits w)))) = bytes_be w 6 12"
proof -
  note p = padded_digits_props [OF assms]
  have "hex_digits_value (take 12 (drop 12 (padded_digits w))) =
          (nat w mod 16 ^ 52) div 16 ^ 40"
    using p by (simp add: hex_digits_value_take hex_digits_value_drop all_hex_drop)
  also have "\<dots> = (nat w mod (16 ^ 40 * 16 ^ 12)) div 16 ^ 40"
    by simp
  also have "\<dots> = (nat w div 16 ^ 40) mod 16 ^ 12"
    by (rule div_mod_shift)
  finally have "int (hex_digits_value (take 12 (drop 12 (padded_digits w)))) =
      int ((nat w div 16 ^ 40) mod 16 ^ 12)" by simp
  also have "\<dots> = (w div 16 ^ 40) mod 16 ^ 12"
    using assms(1) by (simp add: zmod_int zdiv_int)
  finally show ?thesis
    by (simp add: bytes_be_def)
qed

lemma bytes_be_aggregator:
  assumes "0 \<le> w" "w < 2 ^ 256"
  shows "int (hex_digits_value (drop 24 (padded_digits w))) = bytes_be w 12 32"
proof -
  note p = padded_digits_props [OF assms]
  have "hex_digits_value (drop 24 (padded_digits w)) = nat w mod 16 ^ 40"
    using p by (simp add: hex_digits_value_drop)
  then have "int (hex_digits_value (drop 24 (padded_digits w))) = w mod 16 ^ 40"
    using assms(1) by (simp add: zmod_int)
  then show ?thesis
    by (simp add: bytes_be_def)
qed

lemma aggregator_zero_iff:
  assumes "0 \<le> w" "w < 2 ^ 256"
  shows "''0x'' @ drop 24 (padded_digits w) = zeroAddress \<longleftrightarrow> bytes_be w 12 32 = 0"
proof
  assume "''0x'' @ drop 24 (padded_digits w) = zeroAddress"
  then have "drop 24 (padded_digits w) = replicate 40 (CHR ''0'')"
    by (simp add: zeroAddress_def numeral_eq_Suc)
  then have "hex_digits_value (drop 24 (padded_digits w)) = 0"
    by (simp only: hex_digits_value_replicate_zero)
  then show "bytes_be w 12 32 = 0"
    using bytes_be_aggregator [OF assms] by simp
next
  note p = padded_digits_props [OF assms]
  assume "bytes_be w 12 32 = 0"
  then have "hex_digits_value (drop 24 (padded_digits w)) = 0"
    using bytes_be_aggregator [OF assms] by simp
  moreover have "all_hex (drop 24 (padded_digits w))"
    using p by (simp add: all_hex_drop)
  ultimately have "drop 24 (padded_digits w) =
      replicate (length (drop 24 (padded_digits w))) (CHR ''0'')"
    by (rule hex_digits_value_zero [rotated])
  then have "drop 24 (padded_digits w) = replicate 40 (CHR ''0'')"
    using p(1) by simp
  then show "''0x'' @ drop 24 (padded_digits w) = zeroAddress"
    by (simp add: zeroAddress_def numeral_eq_Suc)
qed


lemma parseValidationData_u256:
  assumes "0 \<le> w" "w < 2 ^ 256"
  shows "parseValidationData w =
     Inr \<lparr> aggregator = ''0x'' @ drop 24 (padded_digits w),
           validAfter = bytes_be w 0 6,
           validUntil = (if bytes_be w 6 12 = 0 then 2 ^ 48 - 1 else bytes_be w 6 12) \<rparr>"
proof -
  have z: "(hex_digits_value (take 12 (drop 12 (padded_digits w))) = 0) = (bytes_be w 6 12 = 0)"
    using bytes_be_validUntil [OF assms] by linarith
  show ?thesis
    unfolding parseValidationData_digits [OF assms] z
    by (simp add: bytes_be_validAfter [OF assms] bytes_be_validUntil [OF assms])
qed


lemma digits_too_long:
  assumes "2 ^ 256 \<le> w"
  shows "64 < length (toString16 (nat w))"
proof (rule ccontr)
  assume "\<not> 64 < length (toString16 (nat w))"
  then have l: "length (toString16 (nat w)) \<le> 64" by simp
  have "nat w < 16 ^ length (toString16 (nat w))"
    using hex_digits_value_less [OF all_hex_toString16, of "nat w"]
    by (simp add: hex_digits_value_toString16)
  also have "\<dots> \<le> (16::nat) ^ 64"
    using l by (intro power_increasing) simp_all
  finally have "nat w < 2 ^ 256" by simp
  with assms show False by (simp add: nat_less_iff)
qed

lemma parseValidationData_outcome:
  "parseValidationData w =
     (if w < 0 then Inl IntegerOutOfRangeError
      else if 2 ^ 256 \<le> w then Inl SizeExceedsPaddingSizeError
      else Inr \<lparr> aggregator = ''0x'' @ drop 24 (padded_digits w),
                 validAfter = bytes_be w 0 6,
                 validUntil = (if bytes_be w 6 12 = 0 then 2 ^ 48 - 1 else bytes_be w 6 12) \<rparr>)"
proof (cases "w < 0")
  case True
  then show ?thesis by (simp add: parseValidationData_def toHex_def)
next
  case nonneg: False
  show ?thesis
  proof (cases "2 ^ 256 \<le> w")
    case True
    then show ?thesis
      using nonneg digits_too_long [OF True]
      by (simp add: parseValidationData_def toHex_def pad_def Let_def)
  next
    case False
    with nonneg show ?thesis
      using parseValidationData_u256 [of w] by simp
  qed
qed

lemma parseValidationData_never_NaN: "parseValidationData w \<noteq> Inl NaN_error"
  by (simp add: parseValidationData_outcome NaN_error_def)

lemma parseValidationData_zero:
  "parseValidationData 0 =
     Inr \<lparr> aggregator = zeroAddress, validAfter = 0, validUntil = 2 ^ 48 - 1 \<rparr>"
proof -
  have "bytes_be 0 12 32 = 0" by (simp add: bytes_be_def)
  then have "''0x'' @ drop 24 (padded_digits 0) = zeroAddress"
    using aggregator_zero_iff [of 0] by simp
  then show ?thesis
    unfolding parseValidationData_outcome by (simp add: bytes_be_def)
qed

text \<open>
  Claim C7. \<open>parseValidationData\<close> maps a 256-bit word \<open>w\<close>, viewed as 32
  big-endian bytes, to the triple whose aggregator is the text \<open>0x\<close> followed by the
  40 hexadecimal digits of the bytes \<open>[12, 32)\<close> (so it is the zero address exactly
  when these bytes are zero), whose \<open>validUntil\<close> is the number in the bytes
  \<open>[6, 12)\<close>, replaced by \<open>2^48 - 1\<close> when that number is 0, and whose
  \<open>validAfter\<close> is the number in the bytes \<open>[0, 6)\<close>. The all-zero word gives
  the zero address, \<open>validAfter = 0\<close> and \<open>validUntil = 2^48 - 1\<close>.
\<close>

theorem parseValidationData_fields:
  "(0 \<le> w \<and> w < 2 ^ 256 \<longrightarrow>
      (\<exists>v. parseValidationData w = Inr v \<and>
           take 2 (aggregator v) = ''0x'' \<and>
           length (aggregator v) = 42 \<and>
           all_hex (drop 2 (aggregator v)) \<and>
           int (hex_digits_value (drop 2 (aggregator v))) = bytes_be w 12 32 \<and>
           (aggregator v = zeroAddress \<longleftrightarrow> bytes_be w 12 32 = 0) \<and>
           validUntil v = (if bytes_be w 6 12 = 0 then 2 ^ 48 - 1 else bytes_be w 6 12) \<and>
           validAfter v = bytes_be w 0 6)) \<and>
   parseValidationData 0 =
     Inr \<lparr> aggregator = zeroAddress, validAfter = 0, validUntil = 2 ^ 48 - 1 \<rparr>"
proof (intro conjI impI)
  assume r: "0 \<le> w \<and> w < 2 ^ 256"
  then have w: "0 \<le> w" "w < 2 ^ 256" by simp_all
  note p = padded_digits_props [OF w]
  show "\<exists>v. parseValidationData w = Inr v \<and>
           take 2 (aggregator v) = ''0x'' \<and>
           length (aggregator v) = 42 \<and>
           all_hex (drop 2 (aggregator v)) \<and>
           int (hex_digits_value (drop 2 (aggregator v))) = bytes_be w 12 32 \<and>
           (aggregator v = zeroAddress \<longleftrightarrow> bytes_be w 12 32 = 0) \<and>
           validUntil v = (if bytes_be w 6 12 = 0 then 2 ^ 48 - 1 else bytes_be w 6 12) \<and>
           validAfter v = bytes_be w 0 6"
    unfolding parseValidationData_u256 [OF w]
    using p(1) aggregator_zero_iff [OF w] bytes_be_aggregator [OF w] all_hex_drop [OF p(2), of 24]
    by simp
next
  show "parseValidationData 0 =
     Inr \<lparr> aggregator = zeroAddress, validAfter = 0, validUntil = 2 ^ 48 - 1 \<rparr>"
    by (rule parseValidationData_zero)
qed

theorem parseValidationData_fields_witness:
  "(0::int) \<le> 100 * 2 ^ 208 + 200 * 2 ^ 160 + 1 \<and>
   (100 * 2 ^ 208 + 200 * 2 ^ 160 + 1 :: int) < 2 ^ 256 \<and>
   (\<exists>v. parseValidationData (100 * 2 ^ 208 + 200 * 2 ^ 160 + 1) = Inr v \<and>
        int (hex_digits_value (drop 2 (aggregator v))) = 1 \<and>
        aggregator v \<noteq> zeroAddress \<and>
        validUntil v = 200 \<and>
        validAfter v = 100)"
  using parseValidationData_fields [of "100 * 2 ^ 208 + 200 * 2 ^ 160 + 1"]
  by (simp add: bytes_be_def) blast

text \<open>
  Claim C8. For every pair of account and paymaster triples, \<open>mergeValidationData\<close>
  reports \<open>accountSigFailed\<close> exactly when the account's aggregator is not the zero
  address, \<open>paymasterSigFailed\<close> exactly when the paymaster's aggregator is not the
  zero address, the maximum of the two \<open>validAfter\<close> values and the minimum of the
  two \<open>validUntil\<close> values.
\<close>

theorem mergeValidationData_fields:
  "accountSigFailed_m (mergeValidationData account paymaster') =
     (aggregator account \<noteq> zeroAddress) \<and>
   paymasterSigFailed_m (mergeValidationData account paymaster') =
     (aggregator paymaster' \<noteq> zeroAddress) \<and>
   validAfter_m (mergeValidationData account paymaster') =
     max (validAfter account) (validAfter paymaster') \<and>
   validUntil_m (mergeValidationData account paymaster') =
     min (validUntil account) (validUntil paymaster')"
  by (simp add: mergeValidationData_def Math_max_def Math_min_def max_def min_def)

section \<open>Properties of the validator\<close>

subsection \<open>What the checks compute\<close>

lemma prefund_mul_V06: "prefund_mul (V06 u) = (if paymasterAndData u \<noteq> [] then 3 else 1)"
  by (simp add: prefund_mul_def isVersion06_def isVersion07_def)

lemma prefund_mul_V07: "prefund_mul (V07 u) = (if paymaster u = Some ''0x'' then 3 else 1)"
  by (simp add: prefund_mul_def isVersion06_def isVersion07_def)

lemma validateUserOperation_prefund_rule:
  assumes "getValidationResult this out userOperation = Inr validationResult"
    and "apiVersion this \<noteq> ''v1''"
    and "calcLimits userOperation (preOpGas_of validationResult) (prefund_of validationResult)
           (chainId this) = (verificationGas, callGas)"
  shows "fst (validateUserOperation this calcLimits out userOperation) =
     (if callGas + verificationGas * prefund_mul userOperation +
           preVerificationGas_of userOperation > prefund_of validationResult
      then Inl (RpcError
                  (''prefund is not enough, required: '' @
                   show_int (callGas + verificationGas * prefund_mul userOperation +
                             preVerificationGas_of userOperation) @
                   '', got: '' @ show_int (prefund_of validationResult))
                  (Some SimulateValidation))
      else Inr validationResult)"
  using assms by (simp add: validateUserOperation_def Let_def)

lemma validateUserOperation_v1:
  assumes "getValidationResult this out userOperation = Inr validationResult"
    and "apiVersion this = ''v1''"
  shows "fst (validateUserOperation this calcLimits out userOperation) = Inr validationResult"
  using assms by (simp add: validateUserOperation_def Let_def)

lemma mergeValidationDataValues_zero:
  "mergeValidationDataValues 0 0 =
     Inr \<lparr> paymasterSigFailed_m = False, accountSigFailed_m = False,
           validAfter_m = 0, validUntil_m = 2 ^ 48 - 1 \<rparr>"
  by (simp add: mergeValidationDataValues_def parseValidationData_zero mergeValidationData_def
      Math_max_def Math_min_def)

lemma mergeValidationDataValues_valid_from_2033:
  "mergeValidationDataValues valid_from_2033 0 =
     Inr \<lparr> paymasterSigFailed_m = False, accountSigFailed_m = False,
           validAfter_m = 2000000000, validUntil_m = 2 ^ 48 - 1 \<rparr>"
proof -
  have "bytes_be (2000000000 * 2 ^ 208) 12 32 = 0"
    by (simp add: bytes_be_def)
  then have "''0x'' @ drop 24 (padded_digits (2000000000 * 2 ^ 208)) = zeroAddress"
    using aggregator_zero_iff [of "2000000000 * 2 ^ 208"] by simp
  then have "parseValidationData valid_from_2033 =
      Inr \<lparr> aggregator = zeroAddress, validAfter = 2000000000, validUntil = 2 ^ 48 - 1 \<rparr>"
    unfolding parseValidationData_outcome valid_from_2033_def by (simp add: bytes_be_def)
  then show ?thesis
    by (simp add: mergeValidationDataValues_def parseValidationData_zero mergeValidationData_def
        Math_max_def Math_min_def)
qed

lemma rat_clock_after: "(of_int c / 1000 - 5 < (of_int a :: rat)) = (c - 5000 < a * 1000)"
proof -
  have "(of_int c / 1000 - 5 < (of_int a :: rat)) = ((of_int (c - 5000) :: rat) < of_int (a * 1000))"
    by (simp add: field_simps)
  then show ?thesis by (simp only: of_int_less_iff)
qed

lemma rat_clock_until: "((of_int a :: rat) < of_int c / 1000 + 30) = (a * 1000 < c + 30000)"
proof -
  have "((of_int a :: rat) < of_int c / 1000 + 30) = ((of_int (a * 1000) :: rat) < of_int (c + 30000))"
    by (simp add: field_simps)
  then show ?thesis by (simp only: of_int_less_iff)
qed

lemma getValidationResultV06_time_window:
  assumes "simulationV06 out = Inr r" "\<not> sigFailed06 (returnInfo06 r)"
    and "\<not> disableExpirationCheck this"
  shows "(\<exists>msg. getValidationResultV06 this out u = Inl (RpcError msg (Some ExpiresShortly))) \<longleftrightarrow>
     (validAfter06 (returnInfo06 r) * 1000 > clock_ms out - 5000 \<or>
      validUntil06 (returnInfo06 r) * 1000 < clock_ms out + 30000)"
  using assms
  by (auto simp: getValidationResultV06_def Let_def rat_clock_after rat_clock_until)

lemma getValidationResultV06_disabled:
  assumes "simulationV06 out = Inr r" "disableExpirationCheck this"
  shows "getValidationResultV06 this out u \<noteq> Inl (RpcError msg (Some ExpiresShortly))"
  using assms by (simp add: getValidationResultV06_def Let_def)

lemma getValidationResultV07_time_window:
  assumes "entryPointSimulationsAddress this = Some a" "a \<noteq> []"
    and "simulationV07 out = Inr (validated r)"
    and "mergeValidationDataValues (accountValidationData (sim_returnInfo r))
           (paymasterValidationData (sim_returnInfo r)) = Inr m"
    and "\<not> accountSigFailed_m m" "\<not> paymasterSigFailed_m m"
  shows "(\<exists>msg. getValidationResultV07 this out u = Inl (RpcError msg (Some ExpiresShortly))) \<longleftrightarrow>
     (validAfter_m m > clock_ms out div 1000 - 5 \<or> validUntil_m m < clock_ms out div 1000 + 30)"
  using assms
  by (auto simp: getValidationResultV07_def Let_def)

subsection \<open>The prefund check\<close>

text \<open>
  Claim C1. The claim has the required prefund use the factor 3 exactly when the
  operation declares a paymaster (v0.7: the field \<open>paymaster\<close> is present, that is, not
  \<open>"0x"\<close>). For v0.7 the source sets the factor to 3 when
  \<open>userOperation.paymaster === "0x"\<close>, the opposite test (lemma
  \<open>prefund_mul_V07\<close>); for v0.6 it tests the string \<open>paymasterAndData\<close> for
  truthiness, which also holds for the empty bytes \<open>"0x"\<close> (lemma
  \<open>prefund_mul_V06\<close>). Here a v0.7 operation names a paymaster, declares
  \<open>callGasLimit = 50000\<close>, \<open>verificationGasLimit = 100000\<close> and
  \<open>preVerificationGas = 50000\<close>, and the simulation reports a prefund of 250000:
  the claim requires \<open>50000 + 3 \<cdot> 100000 + 50000 = 400000 > 250000\<close> and
  rejection, whereas the source uses the factor 1, requires 200000 and admits the
  operation.
\<close>

theorem validateUserOperation_paymaster_v07_single_multiplier:
  "prefund_mul sponsored_op_v07 = 1 \<and>
   fst (validateUserOperation (validator_v2 False) declared_limits
          (outside_v07 250000 0 0) sponsored_op_v07) =
     getValidationResult (validator_v2 False) (outside_v07 250000 0 0) sponsored_op_v07 \<and>
   \<not> isl (getValidationResult (validator_v2 False) (outside_v07 250000 0 0) sponsored_op_v07) \<and>
   (50000 + 3 * 100000 + 50000 :: int) > 250000"
  by (simp add: validateUserOperation_def getValidationResult_def getValidationResultV07_def
      validator_v2_def outside_v07_def sponsored_op_v07_def declared_limits_def no_stake_def
      with_addr_def prefund_mul_def isVersion06_def isVersion07_def prefund_of_def
      preOpGas_of_def preVerificationGas_of_def Let_def mergeValidationDataValues_zero)

subsection \<open>The time window\<close>

text \<open>
  Claim C2. The claim has both paths compare against the integer floor of the clock in
  seconds. The v0.7 path does (lemma \<open>getValidationResultV07_time_window\<close>); the
  v0.6 path compares against \<open>Date.now() / 1000\<close> without the floor (lemma
  \<open>getValidationResultV06_time_window\<close>). At the clock value 1700000000500 ms, a
  v0.6 operation with \<open>validAfter = 0\<close> and \<open>validUntil = 1700000030\<close> is
  rejected with \<open>ExpiresShortly\<close>, since \<open>1700000030 < 1700000000.5 + 30\<close>,
  although with \<open>now = 1700000000\<close> neither \<open>validAfter > now - 5\<close> nor
  \<open>validUntil < now + 30\<close> holds.
\<close>

theorem getValidationResultV06_fractional_clock:
  "getValidationResultV06 (validator_v2 False) (outside_v06 0 1700000030) plain_op_v06 =
     Inl (RpcError ''expires too soon'' (Some ExpiresShortly)) \<and>
   clock_ms (outside_v06 0 1700000030) div 1000 = 1700000000 \<and>
   \<not> ((0::int) > 1700000000 - 5 \<or> (1700000030::int) < 1700000000 + 30)"
  by (simp add: getValidationResultV06_def validator_v2_def outside_v06_def no_stake_def Let_def)

text \<open>
  Claim C3. The claim has no operation rejected with \<open>ExpiresShortly\<close> on either
  path once \<open>disableExpirationCheck\<close> is set. The v0.6 path consults the flag (lemma
  \<open>getValidationResultV06_disabled\<close>); the v0.7 path never reads it. With the flag
  set, a v0.7 operation whose account validation data has \<open>validAfter = 2000000000\<close>
  is rejected with \<open>ExpiresShortly\<close> at the clock value 1700000000500 ms.
\<close>

theorem getValidationResultV07_ignores_disableExpirationCheck:
  "disableExpirationCheck (validator_v2 True) \<and>
   getValidationResult (validator_v2 True)
     (outside_v07 250000 valid_from_2033 0) sponsored_op_v07 =
     Inl (RpcError ''User operation is not valid yet, validAfter=2000000000, now=1700000000''
            (Some ExpiresShortly))"
  by (simp add: getValidationResult_def getValidationResultV07_def validator_v2_def outside_v07_def
      sponsored_op_v07_def no_stake_def with_addr_def Let_def show_int_def toString10.simps
      digit_char_def mergeValidationDataValues_valid_from_2033)

subsection \<open>Pre-verification gas\<close>

text \<open>
  Claim C6, as stated: \<open>validate\<close>, that is \<open>validateUserOperation\<close>, rejects an
  operation whose computed pre-verification gas exceeds the declared one when the API
  level is not \<open>v1\<close>. \<open>validateUserOperation\<close> never calls
  \<open>validatePreVerificationGas\<close>: with API level \<open>v2\<close>, a computed value of 60000
  and a declared \<open>preVerificationGas\<close> of 50000, \<open>validatePreVerificationGas\<close>
  rejects the operation and \<open>validateUserOperation\<close> admits it.
\<close>

theorem validateUserOperation_skips_preVerificationGas_counterexample:
  "validatePreVerificationGas (validator_v2 False) (Inr 60000) (V06 plain_op_v06) =
     Inl (RpcError ''preVerificationGas is not enough, required: 60000, got: 50000''
            (Some SimulateValidation)) \<and>
   \<not> isl (fst (validateUserOperation (validator_v2 False) declared_limits
                 (outside_v06 0 2000000000) (V06 plain_op_v06)))"
  by (simp add: validatePreVerificationGas_def validateUserOperation_def getValidationResult_def
      getValidationResultV06_def validator_v2_def outside_v06_def plain_op_v06_def
      declared_limits_def no_stake_def prefund_mul_def isVersion06_def isVersion07_def
      prefund_of_def preOpGas_of_def preVerificationGas_of_def Let_def show_int_def
      toString10.simps digit_char_def)

lemma mentions_at_start: "take (length word) message = word \<Longrightarrow> mentions message word"
  unfolding mentions_def list_ex_iff
  by (rule bexI [of _ 0]) simp_all

lemma validatePreVerificationGas_message_mentions:
  "mentions
     (''preVerificationGas is not enough, required: '' @ a @ '', got: '' @ b)
     ''preVerificationGas''"
  by (rule mentions_at_start) simp

lemma validatePreVerificationGas_accepts_iff:
  assumes "apiVersion this \<noteq> ''v1''" "calc = Inr required"
  shows "validatePreVerificationGas this calc userOperation = Inr () \<longleftrightarrow>
           required \<le> preVerificationGas_of userOperation"
  using assms by (simp add: validatePreVerificationGas_def)

lemma validatePreVerificationGas_rejects:
  assumes "apiVersion this \<noteq> ''v1''" "calc = Inr required"
    and "required > preVerificationGas_of userOperation"
  shows "validatePreVerificationGas this calc userOperation =
     Inl (RpcError
            (''preVerificationGas is not enough, required: '' @ show_int required @
             '', got: '' @ show_int (preVerificationGas_of userOperation))
            (Some SimulateValidation))"
  using assms by (simp add: validatePreVerificationGas_def)

lemma validatePreVerificationGas_v1:
  "apiVersion this = ''v1'' \<Longrightarrow> validatePreVerificationGas this calc userOperation = Inr ()"
  by (simp add: validatePreVerificationGas_def)

text \<open>
  Claim C6, amended. For every user operation, when the configured API level is not
  \<open>v1\<close>, the method \<open>validatePreVerificationGas\<close> enforces that the computed
  pre-verification gas is at most the declared \<open>preVerificationGas\<close>: it accepts
  exactly when this holds, and rejects the operation with a \<open>SimulateValidation\<close>
  error mentioning \<open>preVerificationGas\<close> when the computed value exceeds the declared
  one. When the API level is \<open>v1\<close> the check is skipped.
\<close>

theorem validatePreVerificationGas_enforced:
  "(apiVersion this \<noteq> ''v1'' \<and> calc = Inr required \<longrightarrow>
      (validatePreVerificationGas this calc userOperation = Inr () \<longleftrightarrow>
         required \<le> preVerificationGas_of userOperation) \<and>
      (required > preVerificationGas_of userOperation \<longrightarrow>
         (\<exists>message.
            validatePreVerificationGas this calc userOperation =
              Inl (RpcError message (Some SimulateValidation)) \<and>
            message =
              ''preVerificationGas is not enough, required: '' @ show_int required @
              '', got: '' @ show_int (preVerificationGas_of userOperation) \<and>
            mentions message ''preVerificationGas''))) \<and>
   (apiVersion this = ''v1'' \<longrightarrow> validatePreVerificationGas this calc userOperation = Inr ())"
proof (intro conjI impI)
  assume a: "apiVersion this \<noteq> ''v1'' \<and> calc = Inr required"
  then show "validatePreVerificationGas this calc userOperation = Inr () \<longleftrightarrow>
      required \<le> preVerificationGas_of userOperation"
    by (intro validatePreVerificationGas_accepts_iff) simp_all
  assume "required > preVerificationGas_of userOperation"
  with a have "validatePreVerificationGas this calc userOperation =
     Inl (RpcError
            (''preVerificationGas is not enough, required: '' @ show_int required @
             '', got: '' @ show_int (preVerificationGas_of userOperation))
            (Some SimulateValidation))"
    by (intro validatePreVerificationGas_rejects) simp_all
  then show "\<exists>message.
      validatePreVerificationGas this calc userOperation =
        Inl (RpcError message (Some SimulateValidation)) \<and>
      message =
        ''preVerificationGas is not enough, required: '' @ show_int required @
        '', got: '' @ show_int (preVerificationGas_of userOperation) \<and>
      mentions message ''preVerificationGas''"
    using validatePreVerificationGas_message_mentions by blast
next
  assume "apiVersion this = ''v1''"
  then show "validatePreVerificationGas this calc userOperation = Inr ()"
    by (rule validatePreVerificationGas_v1)
qed

theorem validatePreVerificationGas_enforced_witness:
  "apiVersion (validator_v2 False) \<noteq> ''v1'' \<and>
   (60000::int) > preVerificationGas_of sponsored_op_v07 \<and>
   (50000::int) \<le> preVerificationGas_of sponsored_op_v07 \<and>
   validatePreVerificationGas (validator_v2 False) (Inr 60000) sponsored_op_v07 =
     Inl (RpcError ''preVerificationGas is not enough, required: 60000, got: 50000''
            (Some SimulateValidation)) \<and>
   mentions ''preVerificationGas is not enough, required: 60000, got: 50000''
     ''preVerificationGas'' \<and>
   validatePreVerificationGas (validator_v2 False) (Inr 50000) sponsored_op_v07 = Inr () \<and>
   apiVersion ((validator_v2 False)\<lparr> apiVersion := ''v1'' \<rparr>) = ''v1'' \<and>
   validatePreVerificationGas ((validator_v2 False)\<lparr> apiVersion := ''v1'' \<rparr>) (Inr 60000)
     sponsored_op_v07 = Inr ()"
proof -
  have e: "apiVersion (validator_v2 False) \<noteq> ''v1''"
    "preVerificationGas_of sponsored_op_v07 = 50000"
    "show_int 60000 = ''60000''" "show_int 50000 = ''50000''"
    by (simp_all add: validator_v2_def sponsored_op_v07_def preVerificationGas_of_def
        show_int_def toString10.simps digit_char_def)
  from validatePreVerificationGas_enforced
         [of "validator_v2 False" "Inr 60000" 60000 sponsored_op_v07]
       validatePreVerificationGas_enforced
         [of "validator_v2 False" "Inr 50000" 50000 sponsored_op_v07]
       validatePreVerificationGas_enforced
         [of "(validator_v2 False)\<lparr> apiVersion := ''v1'' \<rparr>" "Inr 60000" 60000 sponsored_op_v07]
  show ?thesis
    using e by auto
qed

end
